theory Spec2Isabelle
  imports Main
begin

section \<open>The conversation and session store of \<^verbatim>\<open>src/store/chat-store.ts\<close>\<close>

text \<open>
  The store is a zustand container: a record of state fields and operations that replace
  some of the fields. Every operation is modelled as a function from the store to the new
  store. What an operation obtains from outside the store (the reading of the clock, the
  result of \<^verbatim>\<open>uuidv4()\<close>, the outcome of an HTTP request) is an argument of the model.
  An asynchronous operation is modelled as it runs when no other operation of the store
  is interleaved with it.

  A JavaScript string is modelled as a \<^typ>\<open>string\<close>, one \<^typ>\<open>char\<close> for each UTF-16 code
  unit (so code units below 256 only); \<^verbatim>\<open>length\<close>, \<^verbatim>\<open>lastIndexOf\<close> and \<^verbatim>\<open>substring\<close>
  count code units, as \<^const>\<open>length\<close>, \<^const>\<open>nth\<close> and \<^const>\<open>take\<close> count characters.
\<close>

subsection \<open>Types\<close>

datatype role = User | Assistant

text \<open>
  A \<^verbatim>\<open>Date\<close>: either \<^verbatim>\<open>new Date()\<close>, the clock's reading in milliseconds, or
  \<^verbatim>\<open>new Date(s)\<close> for a string of the backend, kept unparsed.
\<close>

datatype date = Clock nat | DateOf string

record message =
  msg_role :: role
  msg_content :: string
  timestamp :: date

record uploadedFile =
  file_id :: string
  file_name :: string
  file_size :: nat
  file_status :: string
  s3Key :: "string option"
  file_error :: "string option"

text \<open>\<^verbatim>\<open>Partial<UploadedFile>\<close>: each field is present or not.\<close>

record fileUpdates =
  upd_id :: "string option"
  upd_name :: "string option"
  upd_size :: "nat option"
  upd_status :: "string option"
  upd_s3Key :: "string option"
  upd_error :: "string option"

record session =
  session_id :: string
  session_title :: string
  created_at :: string
  last_updated :: string
  message_count :: nat

record apiMessage =
  api_role :: role
  api_content :: string

record conversation =
  conv_id :: string
  title :: string
  messages :: "message list"
  createdAt :: date
  lastUpdatedAt :: date

record chatStore =
  conversations :: "conversation list"
  sessions :: "session list"
  currentConversationId :: "string option"
  files :: "uploadedFile list"
  isLoading :: bool
  apiKey :: string
  userId :: string
  apiHost :: string
  isConnected :: bool
  connectionError :: "string option"

subsection \<open>Responses of the backend\<close>

text \<open>
  An axios request either rejects (the \<^verbatim>\<open>catch\<close> branch runs) or resolves with
  the response's data.
\<close>

datatype 'a response = Rejected | Resolved 'a

record healthResponse =
  health_status :: string

text \<open>
  The store tests \<^verbatim>\<open>response.data.sessions\<close> and \<^verbatim>\<open>response.data.messages\<close> for
  truthiness; an array, also the empty one, is truthy, so only an absent field
  (\<^const>\<open>None\<close>) fails the test.
\<close>

record sessionsResponse =
  resp_sessions :: "session list option"

record metadata =
  meta_created_at :: string
  meta_last_updated :: string
  meta_message_count :: nat
  meta_title :: string

record conversationResponse =
  cr_session_id :: string
  cr_user_id :: string
  cr_messages :: "apiMessage list option"
  cr_metadata :: metadata

record chatResponse =
  generation :: string
  chat_session_id :: string
  chat_messages :: "apiMessage list"

text \<open>The body of the chat request.\<close>

record chatPayload =
  question :: string
  user_id :: string
  payload_session_id :: "string option"

subsection \<open>JavaScript truthiness of strings\<close>

text \<open>
  A string is falsy exactly when it is empty; a \<^verbatim>\<open>string | null\<close> is falsy when it is
  \<^verbatim>\<open>null\<close> or the empty string.
\<close>

definition truthy :: "string \<Rightarrow> bool" where
  "truthy s = (s \<noteq> [])"

fun truthy_opt :: "string option \<Rightarrow> bool" where
  "truthy_opt None = False"
| "truthy_opt (Some s) = truthy s"

subsection \<open>createTitleFromContent\<close>

text \<open>
  \<^verbatim>\<open>content.lastIndexOf(char, k)\<close> for a one-character search string: the greatest index
  \<open>i \<le> k\<close> inside the string that holds the character, or \<open>-1\<close>.
\<close>

fun lastIndexOf :: "string \<Rightarrow> char \<Rightarrow> nat \<Rightarrow> int" where
  "lastIndexOf s c 0 = (if 0 < length s \<and> s ! 0 = c then 0 else - 1)"
| "lastIndexOf s c (Suc k) =
     (if Suc k < length s \<and> s ! Suc k = c then int (Suc k) else lastIndexOf s c k)"

text \<open>
  \<^verbatim>\<open>String.prototype.trim\<close> removes white space and line terminators from both ends. Of
  the code units below 256 these are TAB, LF, VT, FF, CR, SPACE and NO-BREAK SPACE.
\<close>

definition isWhiteSpace :: "char \<Rightarrow> bool" where
  "isWhiteSpace c =
     (c \<in> set [CHR 0x09, CHR 0x0A, CHR 0x0B, CHR 0x0C, CHR 0x0D, CHR '' '', CHR 0xA0])"

definition trim :: "string \<Rightarrow> string" where
  "trim s = rev (dropWhile isWhiteSpace (rev (dropWhile isWhiteSpace s)))"

definition breakPoints :: "char list" where
  "breakPoints = [CHR '' '', CHR '','', CHR ''.'', CHR ''?'', CHR ''!'']"

text \<open>
  The \<^verbatim>\<open>for (const char of breakPoints)\<close> loop with its \<^verbatim>\<open>break\<close>: the first
  character of the list whose last index up to 30 is beyond 10 decides; the third
  argument is the value of \<^verbatim>\<open>bestBreakPoint\<close> so far.
\<close>

fun bestBreakPoint :: "string \<Rightarrow> char list \<Rightarrow> nat \<Rightarrow> nat" where
  "bestBreakPoint content [] best = best"
| "bestBreakPoint content (ch # rest) best =
     (let index = lastIndexOf content ch 30
      in if index > 10 then nat (index + 1) else bestBreakPoint content rest best)"

definition createTitleFromContent :: "string \<Rightarrow> string" where
  "createTitleFromContent content =
     (if length content \<le> 30 then content
      else trim (take (bestBreakPoint content breakPoints 30) content) @ ''...'')"

subsection \<open>The session id pattern of sendMessage\<close>

text \<open>
  \<^verbatim>\<open>/^[0-9a-f]{8}-[0-9a-f]{4}-[0-9a-f]{4}-[0-9a-f]{4}-[0-9a-f]{12}$/i.test(s)\<close>.
  Under the flag \<^verbatim>\<open>i\<close> the class \<^verbatim>\<open>[0-9a-f]\<close> holds the digits and the letters
  a to f in both cases. The matcher reads the string from the left; each step returns
  the rest of the string, or \<^const>\<open>None\<close> when the pattern fails there.
\<close>

definition isHexDigit :: "char \<Rightarrow> bool" where
  "isHexDigit c = (c \<in> set (''0123456789'' @ ''abcdef'' @ ''ABCDEF''))"

fun hexDigits :: "nat \<Rightarrow> string \<Rightarrow> string option" where
  "hexDigits 0 s = Some s"
| "hexDigits (Suc n) [] = None"
| "hexDigits (Suc n) (c # s) = (if isHexDigit c then hexDigits n s else None)"

fun hyphen :: "string \<Rightarrow> string option" where
  "hyphen [] = None"
| "hyphen (c # s) = (if c = CHR ''-'' then Some s else None)"

definition uuidPattern_test :: "string \<Rightarrow> bool" where
  "uuidPattern_test s =
     (Option.bind (Option.bind (Option.bind (Option.bind (Option.bind (Option.bind
        (Option.bind (Option.bind (hexDigits 8 s) hyphen) (hexDigits 4)) hyphen)
        (hexDigits 4)) hyphen) (hexDigits 4)) hyphen) (hexDigits 12) = Some [])"

subsection \<open>The operations of the store\<close>

text \<open>
  The initial store; \<^verbatim>\<open>apiConfig.defaultApiKey\<close> and \<^verbatim>\<open>apiConfig.host\<close> come from the
  environment (\<^verbatim>\<open>src/lib/config.ts\<close>) and are arguments.
\<close>

definition initialStore :: "string \<Rightarrow> string \<Rightarrow> chatStore" where
  "initialStore defaultApiKey host =
     \<lparr>conversations = [], sessions = [], currentConversationId = None, files = [],
      isLoading = False, apiKey = defaultApiKey, userId = [], apiHost = host,
      isConnected = False, connectionError = None\<rparr>"

definition setApiKey :: "string \<Rightarrow> chatStore \<Rightarrow> chatStore" where
  "setApiKey key state = state\<lparr>apiKey := key\<rparr>"

definition setUserId :: "string \<Rightarrow> chatStore \<Rightarrow> chatStore" where
  "setUserId uid state = state\<lparr>userId := uid, conversations := [], currentConversationId := None\<rparr>"

definition setApiHost :: "string \<Rightarrow> chatStore \<Rightarrow> chatStore" where
  "setApiHost host state = state\<lparr>apiHost := host\<rparr>"

definition loadSessions :: "sessionsResponse response \<Rightarrow> chatStore \<Rightarrow> chatStore" where
  "loadSessions resp state =
     (let s1 = state\<lparr>isLoading := True\<rparr>
      in case resp of
           Rejected \<Rightarrow> s1\<lparr>isLoading := False\<rparr>
         | Resolved data \<Rightarrow>
             (case resp_sessions data of
                Some ss \<Rightarrow> s1\<lparr>sessions := ss, isLoading := False\<rparr>
              | None \<Rightarrow> s1))"

text \<open>
  connect: the health probe's outcome and, for the call of loadSessions on success, the
  outcome of the sessions request. The result is the returned boolean and the store.
\<close>

definition connect ::
  "healthResponse response \<Rightarrow> sessionsResponse response \<Rightarrow> chatStore \<Rightarrow> bool \<times> chatStore" where
  "connect healthCheck sessResp state =
     (let s1 = state\<lparr>isLoading := True, connectionError := None\<rparr>
      in case healthCheck of
           Rejected \<Rightarrow>
             (False, s1\<lparr>isConnected := False, isLoading := False,
                connectionError := Some (''Failed to connect to API. Possible CORS issue. ''
                  @ ''Try using the app in a non-development environment.'')\<rparr>)
         | Resolved data \<Rightarrow>
             if health_status data = ''healthy''
             then (True, loadSessions sessResp
                     (s1\<lparr>isConnected := True, isLoading := False,
                        conversations := [], currentConversationId := None\<rparr>))
             else (False, s1\<lparr>isConnected := False, isLoading := False,
                     connectionError := Some ''API is not healthy''\<rparr>))"

definition loadConversation ::
  "string \<Rightarrow> conversationResponse response \<Rightarrow> chatStore \<Rightarrow> chatStore" where
  "loadConversation sessionId resp state =
     (let s1 = state\<lparr>isLoading := True\<rparr>
      in case resp of
           Rejected \<Rightarrow> s1\<lparr>isLoading := False\<rparr>
         | Resolved data \<Rightarrow>
             (case cr_messages data of
                None \<Rightarrow> s1
              | Some ms \<Rightarrow>
                  let md = cr_metadata data;
                      msgs = map (\<lambda>msg. \<lparr>msg_role = api_role msg, msg_content = api_content msg,
                                timestamp = DateOf (meta_created_at md)\<rparr>) ms;
                      conversation =
                        \<lparr>conv_id = sessionId,
                         title = (if truthy (meta_title md) then meta_title md else ''Conversation''),
                         messages = msgs,
                         createdAt = DateOf (meta_created_at md),
                         lastUpdatedAt = DateOf (meta_last_updated md)\<rparr>
                  in s1\<lparr>conversations :=
                          filter (\<lambda>c. conv_id c \<noteq> sessionId) (conversations s1) @ [conversation],
                        currentConversationId := Some sessionId,
                        isLoading := False\<rparr>))"

text \<open>
  The callback of \<^verbatim>\<open>conversations.map\<close> in addMessage, for the conversation whose id
  is the current one: the message is appended, and the title is replaced only for a user
  message when the conversation has no messages or a generic title.
\<close>

definition appendToConversation :: "string \<Rightarrow> role \<Rightarrow> date \<Rightarrow> conversation \<Rightarrow> conversation" where
  "appendToConversation content role now conv =
     (let message = \<lparr>msg_role = role, msg_content = content, timestamp = now\<rparr>;
          updatedMessages = messages conv @ [message];
          shouldUpdateTitle =
            (role = User \<and>
             (length (messages conv) = 0 \<or>
              title conv = ''New conversation'' \<or>
              title conv = ''New Chat''))
      in conv\<lparr>title := (if shouldUpdateTitle then createTitleFromContent content
                         else title conv),
              messages := updatedMessages,
              lastUpdatedAt := now\<rparr>)"

text \<open>
  addMessage: \<open>now\<close> is \<^verbatim>\<open>new Date()\<close> and \<open>tempId\<close> is what \<^verbatim>\<open>uuidv4()\<close> returns
  if it is called (only when there is no current conversation).
\<close>

definition addMessage :: "string \<Rightarrow> role \<Rightarrow> date \<Rightarrow> string \<Rightarrow> chatStore \<Rightarrow> chatStore" where
  "addMessage content role now tempId state =
     (let message = \<lparr>msg_role = role, msg_content = content, timestamp = now\<rparr>
      in if \<not> truthy_opt (currentConversationId state)
         then state\<lparr>conversations :=
                      \<lparr>conv_id = tempId,
                       title = (if role = User then createTitleFromContent content
                                else ''New conversation''),
                       messages = [message],
                       createdAt = now,
                       lastUpdatedAt = now\<rparr> # conversations state,
                    currentConversationId := Some tempId\<rparr>
         else
           (case currentConversationId state of
              None \<Rightarrow> state
            | Some cur \<Rightarrow>
                (case find (\<lambda>conv. conv_id conv = cur) (conversations state) of
                   Some existingConversation \<Rightarrow>
                     state\<lparr>conversations :=
                       map (\<lambda>conv. if conv_id conv = cur
                                   then appendToConversation content role now conv
                                   else conv)
                           (conversations state)\<rparr>
                 | None \<Rightarrow>
                     (let session = find (\<lambda>s. session_id s = cur) (sessions state);
                          fallback = (if role = User then createTitleFromContent content
                                      else ''New conversation'')
                      in state\<lparr>conversations :=
                           \<lparr>conv_id = cur,
                            title = (case session of
                                       Some se \<Rightarrow> if truthy (session_title se)
                                                  then session_title se else fallback
                                     | None \<Rightarrow> fallback),
                            messages = [message],
                            createdAt = (case session of
                                           Some se \<Rightarrow> DateOf (created_at se)
                                         | None \<Rightarrow> now),
                            lastUpdatedAt = now\<rparr> # conversations state\<rparr>))))"

text \<open>
  The payload of the chat request, built from the store as sendMessage finds it.
\<close>

definition chatRequestPayload :: "string \<Rightarrow> chatStore \<Rightarrow> chatPayload" where
  "chatRequestPayload content state =
     (let payload = \<lparr>question = content, user_id = userId state, payload_session_id = None\<rparr>
      in case currentConversationId state of
           None \<Rightarrow> payload
         | Some cur \<Rightarrow>
             if truthy cur \<and> list_ex (\<lambda>s. session_id s = cur) (sessions state) \<and>
                uuidPattern_test cur
             then payload\<lparr>payload_session_id := Some cur\<rparr>
             else payload)"

text \<open>
  The update of the store when the response's session id is adopted: the function passed
  to \<^verbatim>\<open>set\<close> in sendMessage. Its first argument is the \<^verbatim>\<open>currentConversationId\<close> that
  sendMessage read when it was called, not the store's present one.
\<close>

definition adoptSessionId :: "string option \<Rightarrow> string \<Rightarrow> chatStore \<Rightarrow> chatStore" where
  "adoptSessionId capturedId receivedSessionId state =
     (if truthy_opt capturedId
      then state\<lparr>conversations :=
                   map (\<lambda>c. if Some (conv_id c) = capturedId
                             then c\<lparr>conv_id := receivedSessionId\<rparr> else c)
                       (conversations state),
                 currentConversationId := Some receivedSessionId\<rparr>
      else state\<lparr>currentConversationId := Some receivedSessionId\<rparr>)"

text \<open>
  sendMessage. The arguments after the content, in the order the code needs them:
  the clock and the uuid for the user message's addMessage, the outcome of the chat
  request, the clock and the uuid for the assistant message's addMessage, and the outcome
  of the sessions request of the final loadSessions. The result is the payload that was
  posted and the store when the operation has finished.
\<close>

definition sendMessage ::
  "string \<Rightarrow> date \<Rightarrow> string \<Rightarrow> chatResponse response \<Rightarrow> date \<Rightarrow> string \<Rightarrow>
   sessionsResponse response \<Rightarrow> chatStore \<Rightarrow> chatPayload \<times> chatStore" where
  "sendMessage content now1 uuid1 resp now2 uuid2 sessResp state =
     (let capturedId = currentConversationId state;
          s1 = state\<lparr>isLoading := True\<rparr>;
          payload = chatRequestPayload content s1;
          s2 = addMessage content User now1 uuid1 s1
      in case resp of
           Rejected \<Rightarrow> (payload, s2\<lparr>isLoading := False\<rparr>)
         | Resolved data \<Rightarrow>
             (let s3 =
                (if truthy (generation data)
                 then
                   (let s4 = addMessage (generation data) Assistant now2 uuid2 s2;
                        receivedSessionId = chat_session_id data
                    in if truthy receivedSessionId \<and>
                          (\<not> truthy_opt capturedId \<or> capturedId \<noteq> Some receivedSessionId)
                       then loadSessions sessResp (adoptSessionId capturedId receivedSessionId s4)
                       else s4)
                 else s2)
              in (payload, s3\<lparr>isLoading := False\<rparr>)))"

definition startNewConversation :: "chatStore \<Rightarrow> chatStore" where
  "startNewConversation state = state\<lparr>currentConversationId := None\<rparr>"

text \<open>
  setCurrentConversation starts loadConversation without waiting for it; the model runs
  it to its end.
\<close>

definition setCurrentConversation ::
  "string \<Rightarrow> conversationResponse response \<Rightarrow> chatStore \<Rightarrow> chatStore" where
  "setCurrentConversation cid resp state =
     (case find (\<lambda>c. conv_id c = cid) (conversations state) of
        Some conversation \<Rightarrow> state\<lparr>currentConversationId := Some cid\<rparr>
      | None \<Rightarrow> loadConversation cid resp state)"

definition deleteSession :: "string \<Rightarrow> unit response \<Rightarrow> chatStore \<Rightarrow> chatStore" where
  "deleteSession sessionId resp state =
     (let s1 = state\<lparr>isLoading := True\<rparr>
      in case resp of
           Rejected \<Rightarrow> s1\<lparr>isLoading := False\<rparr>
         | Resolved u \<Rightarrow>
             s1\<lparr>conversations := filter (\<lambda>conv. conv_id conv \<noteq> sessionId) (conversations s1),
                sessions := filter (\<lambda>session. session_id session \<noteq> sessionId) (sessions s1),
                currentConversationId :=
                  (if currentConversationId s1 = Some sessionId then None
                   else currentConversationId s1),
                isLoading := False\<rparr>)"

definition deleteConversation :: "string \<Rightarrow> unit response \<Rightarrow> chatStore \<Rightarrow> chatStore" where
  "deleteConversation cid resp state = deleteSession cid resp state"

definition addFile :: "uploadedFile \<Rightarrow> chatStore \<Rightarrow> chatStore" where
  "addFile file state = state\<lparr>files := files state @ [file]\<rparr>"

text \<open>\<^verbatim>\<open>{ ...file, ...updates }\<close>: a field of the updates, when present, replaces the file's.\<close>

definition spreadUpdates :: "uploadedFile \<Rightarrow> fileUpdates \<Rightarrow> uploadedFile" where
  "spreadUpdates file updates =
     \<lparr>file_id = (case upd_id updates of Some v \<Rightarrow> v | None \<Rightarrow> file_id file),
      file_name = (case upd_name updates of Some v \<Rightarrow> v | None \<Rightarrow> file_name file),
      file_size = (case upd_size updates of Some v \<Rightarrow> v | None \<Rightarrow> file_size file),
      file_status = (case upd_status updates of Some v \<Rightarrow> v | None \<Rightarrow> file_status file),
      s3Key = (case upd_s3Key updates of Some v \<Rightarrow> Some v | None \<Rightarrow> s3Key file),
      file_error = (case upd_error updates of Some v \<Rightarrow> Some v | None \<Rightarrow> file_error file)\<rparr>"

definition updateFile :: "string \<Rightarrow> fileUpdates \<Rightarrow> chatStore \<Rightarrow> chatStore" where
  "updateFile fid updates state =
     state\<lparr>files := map (\<lambda>file. if file_id file = fid then spreadUpdates file updates else file)
                         (files state)\<rparr>"

definition removeFile :: "string \<Rightarrow> chatStore \<Rightarrow> chatStore" where
  "removeFile fid state = state\<lparr>files := filter (\<lambda>file. file_id file \<noteq> fid) (files state)\<rparr>"

definition setLoading :: "bool \<Rightarrow> chatStore \<Rightarrow> chatStore" where
  "setLoading loading state = state\<lparr>isLoading := loading\<rparr>"

section \<open>Notions of the specification\<close>

text \<open>
  The specification's reading of the title rule: the last boundary character (space,
  comma, period, question mark, exclamation mark, whichever it is) at a position after
  10 and at or before 30.
\<close>

definition lastBoundary :: "string \<Rightarrow> nat option" where
  "lastBoundary content =
     find (\<lambda>i. i < length content \<and> content ! i \<in> set breakPoints) (rev [11..<31])"

text \<open>
  The specification's canonical UUID textual pattern: 36 characters, five groups of
  8, 4, 4, 4 and 12 hexadecimal digits with a hyphen after each of the first four.
\<close>

definition canonicalUuid :: "string \<Rightarrow> bool" where
  "canonicalUuid s =
     (length s = 36 \<and>
      list_all isHexDigit (take 8 s) \<and> s ! 8 = CHR ''-'' \<and>
      list_all isHexDigit (take 4 (drop 9 s)) \<and> s ! 13 = CHR ''-'' \<and>
      list_all isHexDigit (take 4 (drop 14 s)) \<and> s ! 18 = CHR ''-'' \<and>
      list_all isHexDigit (take 4 (drop 19 s)) \<and> s ! 23 = CHR ''-'' \<and>
      list_all isHexDigit (drop 24 s))"

text \<open>The hexadecimal digits in lower case.\<close>

definition isLowerHexDigit :: "char \<Rightarrow> bool" where
  "isLowerHexDigit c = (c \<in> set ''0123456789abcdef'')"

text \<open>
  Modelled from the spec: the result of \<^verbatim>\<open>uuidv4()\<close>. The function belongs to the
  \<^verbatim>\<open>uuid\<close> package, which is not among the sources; its results are taken to be
  version-4 UUID strings, that is \<^verbatim>\<open>xxxxxxxx-xxxx-4xxx-yxxx-xxxxxxxxxxxx\<close> with lower-case
  hexadecimal digits for \<^verbatim>\<open>x\<close> and one of 8, 9, a, b for \<^verbatim>\<open>y\<close>.
\<close>

definition uuidv4Format :: "string \<Rightarrow> bool" where
  "uuidv4Format s =
     (length s = 36 \<and>
      list_all isLowerHexDigit (take 8 s) \<and> s ! 8 = CHR ''-'' \<and>
      list_all isLowerHexDigit (take 4 (drop 9 s)) \<and> s ! 13 = CHR ''-'' \<and>
      s ! 14 = CHR ''4'' \<and> list_all isLowerHexDigit (take 3 (drop 15 s)) \<and> s ! 18 = CHR ''-'' \<and>
      s ! 19 \<in> set ''89ab'' \<and> list_all isLowerHexDigit (take 3 (drop 20 s)) \<and>
      s ! 23 = CHR ''-'' \<and>
      list_all isLowerHexDigit (drop 24 s))"

section \<open>Sequences of operations\<close>

text \<open>
  An operation of the store together with everything it obtains from outside: clock
  readings, results of \<^verbatim>\<open>uuidv4()\<close> and outcomes of requests, in the order of the
  arguments of the functions above.
\<close>

datatype operation =
    SetApiKey string
  | SetUserId string
  | SetApiHost string
  | Connect "healthResponse response" "sessionsResponse response"
  | LoadSessions "sessionsResponse response"
  | LoadConversation string "conversationResponse response"
  | SendMessage string date string "chatResponse response" date string "sessionsResponse response"
  | StartNewConversation
  | AddMessage string role date string
  | SetCurrentConversation string "conversationResponse response"
  | DeleteConversation string "unit response"
  | DeleteSession string "unit response"
  | AddFile uploadedFile
  | UpdateFile string fileUpdates
  | RemoveFile string
  | SetLoading bool

fun perform :: "operation \<Rightarrow> chatStore \<Rightarrow> chatStore" where
  "perform (SetApiKey key) state = setApiKey key state"
| "perform (SetUserId uid) state = setUserId uid state"
| "perform (SetApiHost host) state = setApiHost host state"
| "perform (Connect healthCheck sessResp) state = snd (connect healthCheck sessResp state)"
| "perform (LoadSessions resp) state = loadSessions resp state"
| "perform (LoadConversation sessionId resp) state = loadConversation sessionId resp state"
| "perform (SendMessage content now1 uuid1 resp now2 uuid2 sessResp) state =
     snd (sendMessage content now1 uuid1 resp now2 uuid2 sessResp state)"
| "perform StartNewConversation state = startNewConversation state"
| "perform (AddMessage content role now tempId) state = addMessage content role now tempId state"
| "perform (SetCurrentConversation cid resp) state = setCurrentConversation cid resp state"
| "perform (DeleteConversation cid resp) state = deleteConversation cid resp state"
| "perform (DeleteSession sessionId resp) state = deleteSession sessionId resp state"
| "perform (AddFile file) state = addFile file state"
| "perform (UpdateFile fid updates) state = updateFile fid updates state"
| "perform (RemoveFile fid) state = removeFile fid state"
| "perform (SetLoading loading) state = setLoading loading state"

fun run :: "operation list \<Rightarrow> chatStore \<Rightarrow> chatStore" where
  "run [] state = state"
| "run (opn # ops) state = run ops (perform opn state)"

text \<open>
  The invariant of the specification: at most one conversation per id.
\<close>

definition uniqueIds :: "chatStore \<Rightarrow> bool" where
  "uniqueIds state = distinct (map conv_id (conversations state))"

text \<open>
  The two conditions on what comes from outside. A temporary id that addMessage mints
  in a store (it mints one only when there is no current conversation) is not the id of
  a conversation of that store. A session id that sendMessage adopts for a current
  conversation (the response's id is not empty, the id read at entry is neither
  \<^verbatim>\<open>null\<close> nor empty, and the two differ) is not the id of a conversation of the store.
\<close>

definition mintsFresh :: "string \<Rightarrow> chatStore \<Rightarrow> bool" where
  "mintsFresh tempId state =
     (truthy_opt (currentConversationId state) \<or>
      tempId \<notin> set (map conv_id (conversations state)))"

definition adoptsFresh :: "string option \<Rightarrow> string \<Rightarrow> chatStore \<Rightarrow> bool" where
  "adoptsFresh capturedId receivedSessionId state =
     (truthy receivedSessionId \<and> truthy_opt capturedId \<and> capturedId \<noteq> Some receivedSessionId
        \<longrightarrow> receivedSessionId \<notin> set (map conv_id (conversations state)))"

text \<open>
  An operation is admissible in a store when the ids it is given meet these conditions
  at the places where the operation uses them; a run is admissible when each operation
  is, in the store it is performed in.
\<close>

fun admissible :: "operation \<Rightarrow> chatStore \<Rightarrow> bool" where
  "admissible (AddMessage content role now tempId) state = mintsFresh tempId state"
| "admissible (SendMessage content now1 uuid1 resp now2 uuid2 sessResp) state =
     (mintsFresh uuid1 state \<and>
      (case resp of
         Rejected \<Rightarrow> True
       | Resolved data \<Rightarrow>
           truthy (generation data) \<longrightarrow>
             (let s2 = addMessage content User now1 uuid1 (state\<lparr>isLoading := True\<rparr>);
                  s4 = addMessage (generation data) Assistant now2 uuid2 s2
              in mintsFresh uuid2 s2 \<and>
                 adoptsFresh (currentConversationId state) (chat_session_id data) s4)))"
| "admissible opn state = True"

fun admissibleRun :: "operation list \<Rightarrow> chatStore \<Rightarrow> bool" where
  "admissibleRun [] state = True"
| "admissibleRun (opn # ops) state =
     (admissible opn state \<and> admissibleRun ops (perform opn state))"

section \<open>The title rule\<close>

lemma lastIndexOf_eq:
  "i \<le> k \<Longrightarrow> i < length s \<Longrightarrow> s ! i = c \<Longrightarrow>
   (\<forall>j. i < j \<and> j \<le> k \<and> j < length s \<longrightarrow> s ! j \<noteq> c) \<Longrightarrow>
   lastIndexOf s c k = int i"
proof (induction k)
  case 0
  then show ?case by simp
next
  case (Suc k)
  show ?case
  proof (cases "i = Suc k")
    case True
    with Suc.prems show ?thesis by simp
  next
    case False
    with Suc.prems have le: "i \<le> k" by simp
    from Suc.prems False have miss: "\<not> (Suc k < length s \<and> s ! Suc k = c)"
      by (metis le_neq_implies_less order_refl)
    have "lastIndexOf s c k = int i"
      using Suc.IH [OF le Suc.prems(2) Suc.prems(3)] Suc.prems(4) by simp
    with miss show ?thesis by auto
  qed
qed

lemma lastIndexOf_le:
  "(\<forall>j. m < j \<and> j \<le> k \<and> j < length s \<longrightarrow> s ! j \<noteq> c) \<Longrightarrow> lastIndexOf s c k \<le> int m"
proof (induction k)
  case 0
  then show ?case by simp
next
  case (Suc k)
  show ?case
  proof (cases "Suc k < length s \<and> s ! Suc k = c")
    case True
    with Suc.prems have "\<not> m < Suc k" by blast
    with True show ?thesis by simp
  next
    case False
    have "lastIndexOf s c k \<le> int m" using Suc.IH Suc.prems by simp
    with False show ?thesis by auto
  qed
qed

lemma bestBreakPoint_skip:
  "(\<forall>ch \<in> set pre. \<forall>j. 10 < j \<and> j \<le> 30 \<and> j < length content \<longrightarrow> content ! j \<noteq> ch) \<Longrightarrow>
   bestBreakPoint content (pre @ rest) best = bestBreakPoint content rest best"
proof (induction pre)
  case Nil
  then show ?case by simp
next
  case (Cons ch pre)
  have "lastIndexOf content ch 30 \<le> int 10"
    using Cons.prems by (intro lastIndexOf_le) simp
  then have "\<not> lastIndexOf content ch 30 > 10" by simp
  moreover have "bestBreakPoint content (pre @ rest) best = bestBreakPoint content rest best"
    using Cons.IH Cons.prems by simp
  ultimately show ?case by (simp add: Let_def)
qed

lemma bestBreakPoint_hit:
  assumes "10 < i" "i \<le> 30" "i < length content" "content ! i = ch"
    and "\<forall>j. i < j \<and> j \<le> 30 \<and> j < length content \<longrightarrow> content ! j \<noteq> ch"
  shows "bestBreakPoint content (ch # rest) best = Suc i"
proof -
  have "lastIndexOf content ch 30 = int i"
    using assms by (intro lastIndexOf_eq) auto
  with assms(1) show ?thesis by (simp add: Let_def)
qed

lemma bestBreakPoint_none:
  "(\<forall>ch \<in> set chs. \<forall>j. 10 < j \<and> j \<le> 30 \<and> j < length content \<longrightarrow> content ! j \<noteq> ch) \<Longrightarrow>
   bestBreakPoint content chs best = best"
  using bestBreakPoint_skip [of chs content "[]" best] by simp

text \<open>
  C4, as amended. Content of at most 30 characters is its own title. For longer content
  the characters space, comma, period, question mark, exclamation mark are tried in this
  order: the first of them that occurs at an index \<open>i\<close> with \<open>10 < i \<le> 30\<close> decides, and
  with \<open>i\<close> its last such index the title is the first \<open>i + 1\<close> characters of the content,
  white space trimmed off both ends, followed by three dots. When none of the five
  occurs at such an index, the title is the first 30 characters, trimmed, followed by
  three dots.
\<close>

theorem createTitleFromContent_rule:
  "(length content \<le> 30 \<longrightarrow> createTitleFromContent content = content) \<and>
   (30 < length content \<longrightarrow>
      (\<forall>k i. k < length breakPoints \<and> 10 < i \<and> i \<le> 30 \<and>
             content ! i = breakPoints ! k \<and>
             (\<forall>j. i < j \<and> j \<le> 30 \<longrightarrow> content ! j \<noteq> breakPoints ! k) \<and>
             (\<forall>k' j. k' < k \<and> 10 < j \<and> j \<le> 30 \<longrightarrow> content ! j \<noteq> breakPoints ! k')
         \<longrightarrow> createTitleFromContent content = trim (take (Suc i) content) @ ''...'') \<and>
      ((\<forall>j. 10 < j \<and> j \<le> 30 \<longrightarrow> content ! j \<notin> set breakPoints)
         \<longrightarrow> createTitleFromContent content = trim (take 30 content) @ ''...''))"
proof (intro conjI impI allI)
  assume "length content \<le> 30"
  then show "createTitleFromContent content = content"
    by (simp add: createTitleFromContent_def)
next
  fix k i
  assume long: "30 < length content"
    and h: "k < length breakPoints \<and> 10 < i \<and> i \<le> 30 \<and>
             content ! i = breakPoints ! k \<and>
             (\<forall>j. i < j \<and> j \<le> 30 \<longrightarrow> content ! j \<noteq> breakPoints ! k) \<and>
             (\<forall>k' j. k' < k \<and> 10 < j \<and> j \<le> 30 \<longrightarrow> content ! j \<noteq> breakPoints ! k')"
  from h have split: "breakPoints = take k breakPoints @ (breakPoints ! k) # drop (Suc k) breakPoints"
    by (simp add: id_take_nth_drop)
  have pre: "\<forall>ch \<in> set (take k breakPoints).
               \<forall>j. 10 < j \<and> j \<le> 30 \<and> j < length content \<longrightarrow> content ! j \<noteq> ch"
  proof (intro ballI allI impI)
    fix ch j
    assume "ch \<in> set (take k breakPoints)" and j: "10 < j \<and> j \<le> 30 \<and> j < length content"
    then obtain k' where "k' < k" "ch = breakPoints ! k'"
      using h by (auto simp: in_set_conv_nth)
    with h j show "content ! j \<noteq> ch" by blast
  qed
  have "bestBreakPoint content breakPoints 30 =
        bestBreakPoint content ((breakPoints ! k) # drop (Suc k) breakPoints) 30"
    using bestBreakPoint_skip [OF pre, of "(breakPoints ! k) # drop (Suc k) breakPoints" 30] split
    by simp
  also have "\<dots> = Suc i"
    using h long by (intro bestBreakPoint_hit) auto
  finally show "createTitleFromContent content = trim (take (Suc i) content) @ ''...''"
    using long by (simp add: createTitleFromContent_def)
next
  assume long: "30 < length content"
    and none: "\<forall>j. 10 < j \<and> j \<le> 30 \<longrightarrow> content ! j \<notin> set breakPoints"
  have "bestBreakPoint content breakPoints 30 = 30"
    using none by (intro bestBreakPoint_none) auto
  then show "createTitleFromContent content = trim (take 30 content) @ ''...''"
    using long by (simp add: createTitleFromContent_def)
qed


lemma all_between: "list_all P [Suc a..<Suc b] \<Longrightarrow> \<forall>j. a < j \<and> j \<le> b \<longrightarrow> P j"
  unfolding list_all_iff set_upt by auto

text \<open>
  C4, witness: a short content, a content cut after the space at index 27 (the comma at
  26 stays, the space is trimmed), and a content without boundary cut at 30.
\<close>

theorem createTitleFromContent_rule_witness:
  "createTitleFromContent ''Show me Q1 sales'' = ''Show me Q1 sales'' \<and>
   createTitleFromContent ''Please compare the revenue, costs and margins of Q1'' =
     ''Please compare the revenue,...'' \<and>
   createTitleFromContent ''Supercalifragilisticexpialidocious'' =
     ''Supercalifragilisticexpialidoc...''"
proof (intro conjI)
  let ?c = "''Show me Q1 sales''"
  have "length ?c \<le> 30" by simp
  with createTitleFromContent_rule [of ?c] show "createTitleFromContent ?c = ?c"
    by (rule conjunct1 [THEN mp])
next
  let ?c = "''Please compare the revenue, costs and margins of Q1''"
  note rule = createTitleFromContent_rule [of ?c, THEN conjunct2, THEN mp, THEN conjunct1,
      THEN spec, THEN spec, THEN mp, of 0 27]
  have len: "30 < length ?c" by simp
  have k: "0 < length breakPoints" by (simp add: breakPoints_def)
  have i: "10 < (27::nat)" "(27::nat) \<le> 30" by simp_all
  have at: "?c ! 27 = breakPoints ! 0" by (simp add: breakPoints_def)
  have "list_all (\<lambda>j. ?c ! j \<noteq> breakPoints ! 0) [Suc 27..<Suc 30]" by code_simp
  then have later: "\<forall>j. 27 < j \<and> j \<le> 30 \<longrightarrow> ?c ! j \<noteq> breakPoints ! 0"
    by (rule all_between)
  have earlier: "\<forall>k' j. k' < 0 \<and> 10 < j \<and> j \<le> 30 \<longrightarrow> ?c ! j \<noteq> breakPoints ! k'"
    by simp
  have "createTitleFromContent ?c = trim (take (Suc 27) ?c) @ ''...''"
    using len k i at later earlier by (intro rule conjI)
  also have "trim (take (Suc 27) ?c) @ ''...'' = ''Please compare the revenue,...''"
    by code_simp
  finally show "createTitleFromContent ?c = ''Please compare the revenue,...''" .
next
  let ?c = "''Supercalifragilisticexpialidocious''"
  note rule = createTitleFromContent_rule [of ?c, THEN conjunct2, THEN mp, THEN conjunct2,
      THEN mp]
  have len: "30 < length ?c" by simp
  have "list_all (\<lambda>j. ?c ! j \<notin> set breakPoints) [Suc 10..<Suc 30]" by code_simp
  then have none: "\<forall>j. 10 < j \<and> j \<le> 30 \<longrightarrow> ?c ! j \<notin> set breakPoints"
    by (rule all_between)
  have "createTitleFromContent ?c = trim (take 30 ?c) @ ''...''"
    using len none by (rule rule)
  also have "trim (take 30 ?c) @ ''...'' = ''Supercalifragilisticexpialidoc...''"
    by code_simp
  finally show "createTitleFromContent ?c = ''Supercalifragilisticexpialidoc...''" .
qed

text \<open>
  C4, counterexample. In the first content the last boundary character up to index 30
  is the comma at 30, but the title is cut at the last space (index 24), since the space
  is tried first: it is neither the prefix that ends with the comma nor the one that ends
  before it, followed by the dots. In the second content no boundary lies between 11 and
  30 and the title is not the first 30 characters followed by the dots: the leading
  space is trimmed.
\<close>

theorem createTitleFromContent_last_boundary_counterexample:
  "lastBoundary ''What were total sales in March,April and May?'' = Some 30 \<and>
   createTitleFromContent ''What were total sales in March,April and May?'' =
     ''What were total sales in...'' \<and>
   createTitleFromContent ''What were total sales in March,April and May?'' \<noteq>
     take 31 ''What were total sales in March,April and May?'' @ ''...'' \<and>
   createTitleFromContent ''What were total sales in March,April and May?'' \<noteq>
     take 30 ''What were total sales in March,April and May?'' @ ''...'' \<and>
   lastBoundary '' Supercalifragilisticexpialidocious'' = None \<and>
   createTitleFromContent '' Supercalifragilisticexpialidocious'' =
     ''Supercalifragilisticexpialido...'' \<and>
   createTitleFromContent '' Supercalifragilisticexpialidocious'' \<noteq>
     take 30 '' Supercalifragilisticexpialidocious'' @ ''...''"
  by code_simp

section \<open>The session id pattern\<close>

text \<open>
  The matcher of sendMessage's regular expression accepts exactly the canonical UUID
  strings.
\<close>

lemma hexDigits_Some:
  "hexDigits n s = Some r \<longleftrightarrow> n \<le> length s \<and> list_all isHexDigit (take n s) \<and> r = drop n s"
  by (induction n s rule: hexDigits.induct) auto

lemma hyphen_drop_Some:
  "hyphen (drop k s) = Some r \<longleftrightarrow> k < length s \<and> s ! k = CHR ''-'' \<and> r = drop (Suc k) s"
proof (cases "k < length s")
  case True
  then have "drop k s = s ! k # drop (Suc k) s" by (simp add: Cons_nth_drop_Suc)
  with True show ?thesis by auto
next
  case False
  then show ?thesis by simp
qed

lemma uuidPattern_test_canonical: "uuidPattern_test s = canonicalUuid s"
proof -
  have "uuidPattern_test s \<longleftrightarrow>
        (\<exists>r1 r2 r3 r4 r5 r6 r7 r8.
           hexDigits 8 (drop 0 s) = Some r1 \<and> hyphen r1 = Some r2 \<and> hexDigits 4 r2 = Some r3 \<and>
           hyphen r3 = Some r4 \<and> hexDigits 4 r4 = Some r5 \<and> hyphen r5 = Some r6 \<and>
           hexDigits 4 r6 = Some r7 \<and> hyphen r7 = Some r8 \<and> hexDigits 12 r8 = Some [])"
    unfolding uuidPattern_test_def bind_eq_Some_conv by auto
  also have "\<dots> \<longleftrightarrow> canonicalUuid s"
    unfolding hexDigits_Some canonicalUuid_def
    by (auto simp: hyphen_drop_Some)
  finally show ?thesis .
qed

section \<open>The message-append algorithm\<close>

lemma addMessage_isLoading:
  "addMessage content role now tempId (state\<lparr>isLoading := b\<rparr>) =
   (addMessage content role now tempId state)\<lparr>isLoading := b\<rparr>"
  by (simp add: addMessage_def Let_def split: option.splits)

lemma addMessage_sessions [simp]:
  "sessions (addMessage content role now tempId state) = sessions state"
  by (simp add: addMessage_def Let_def split: option.splits)

lemma appendToConversation_fields [simp]:
  "conv_id (appendToConversation content role now conv) = conv_id conv"
  "messages (appendToConversation content role now conv) =
     messages conv @ [\<lparr>msg_role = role, msg_content = content, timestamp = now\<rparr>]"
  "createdAt (appendToConversation content role now conv) = createdAt conv"
  by (simp_all add: appendToConversation_def Let_def)

lemma in_set_map_if: "x \<in> set xs \<Longrightarrow> P x \<Longrightarrow> g x \<in> set (map (\<lambda>y. if P y then g y else y) xs)"
  by (induction xs) auto

lemma addMessage_existing:
  assumes "currentConversationId state = Some cur" "truthy cur"
    and "ex \<in> set (conversations state)" "conv_id ex = cur"
  shows "conversations (addMessage content role now tempId state) =
           map (\<lambda>conv. if conv_id conv = cur then appendToConversation content role now conv
                       else conv) (conversations state)"
    and "currentConversationId (addMessage content role now tempId state) = Some cur"
proof -
  from assms(3,4) have "find (\<lambda>conv. conv_id conv = cur) (conversations state) \<noteq> None"
    by (auto simp: find_None_iff)
  then obtain e where "find (\<lambda>conv. conv_id conv = cur) (conversations state) = Some e"
    by auto
  with assms(1,2)
  show "conversations (addMessage content role now tempId state) =
           map (\<lambda>conv. if conv_id conv = cur then appendToConversation content role now conv
                       else conv) (conversations state)"
    and "currentConversationId (addMessage content role now tempId state) = Some cur"
    by (simp_all add: addMessage_def Let_def)
qed

lemma addMessage_missing:
  assumes "currentConversationId state = Some cur" "truthy cur"
    and "\<forall>c \<in> set (conversations state). conv_id c \<noteq> cur"
  shows "\<exists>c. conversations (addMessage content role now tempId state) = c # conversations state \<and>
             conv_id c = cur \<and>
             messages c = [\<lparr>msg_role = role, msg_content = content, timestamp = now\<rparr>]"
    and "currentConversationId (addMessage content role now tempId state) = Some cur"
proof -
  from assms(3) have "find (\<lambda>conv. conv_id conv = cur) (conversations state) = None"
    by (auto simp: find_None_iff)
  with assms(1,2)
  show "\<exists>c. conversations (addMessage content role now tempId state) = c # conversations state \<and>
             conv_id c = cur \<and>
             messages c = [\<lparr>msg_role = role, msg_content = content, timestamp = now\<rparr>]"
    and "currentConversationId (addMessage content role now tempId state) = Some cur"
    by (simp_all add: addMessage_def Let_def)
qed

lemma addMessage_current_holds_message:
  "\<exists>c \<in> set (conversations (addMessage content role now tempId state)).
     Some (conv_id c) = currentConversationId (addMessage content role now tempId state) \<and>
     messages c \<noteq> [] \<and>
     last (messages c) = \<lparr>msg_role = role, msg_content = content, timestamp = now\<rparr>"
proof (cases "truthy_opt (currentConversationId state)")
  case False
  then show ?thesis by (simp add: addMessage_def Let_def)
next
  case True
  then obtain cur where cur: "currentConversationId state = Some cur" "truthy cur"
    by (cases "currentConversationId state") auto
  show ?thesis
  proof (cases "\<exists>ex \<in> set (conversations state). conv_id ex = cur")
    case False
    then have "\<forall>c \<in> set (conversations state). conv_id c \<noteq> cur" by blast
    from addMessage_missing [OF cur this, of content role now tempId]
    show ?thesis by auto
  next
    case True
    then obtain ex where ex: "ex \<in> set (conversations state)" "conv_id ex = cur" by blast
    note upd = addMessage_existing [OF cur ex, of content role now tempId]
    have "appendToConversation content role now ex \<in>
            set (conversations (addMessage content role now tempId state))"
      unfolding upd(1) using ex by (intro in_set_map_if)
    then show ?thesis
      using ex upd(2) by (intro bexI [of _ "appendToConversation content role now ex"]) simp_all
  qed
qed

lemma addMessage_keeps_current:
  assumes "currentConversationId state = Some cur" "truthy cur"
  shows "currentConversationId (addMessage content role now tempId state) = Some cur"
    and "\<exists>c \<in> set (conversations (addMessage content role now tempId state)). conv_id c = cur"
    and "\<forall>c \<in> set (conversations state). conv_id c = cur \<longrightarrow>
           appendToConversation content role now c \<in>
             set (conversations (addMessage content role now tempId state))"
proof -
  let ?s' = "addMessage content role now tempId state"
  have "currentConversationId ?s' = Some cur \<and>
        (\<exists>c \<in> set (conversations ?s'). conv_id c = cur) \<and>
        (\<forall>c \<in> set (conversations state). conv_id c = cur \<longrightarrow>
           appendToConversation content role now c \<in> set (conversations ?s'))"
  proof (cases "\<exists>ex \<in> set (conversations state). conv_id ex = cur")
    case False
    then have none: "\<forall>c \<in> set (conversations state). conv_id c \<noteq> cur" by blast
    from addMessage_missing [OF assms none, of content role now tempId] none
    show ?thesis by auto
  next
    case True
    then obtain ex where ex: "ex \<in> set (conversations state)" "conv_id ex = cur" by blast
    note upd = addMessage_existing [OF assms ex, of content role now tempId]
    have "appendToConversation content role now c \<in> set (conversations ?s')"
      if "c \<in> set (conversations state)" "conv_id c = cur" for c
      unfolding upd(1) using that by (intro in_set_map_if)
    moreover from this [OF ex] have "\<exists>c \<in> set (conversations ?s'). conv_id c = cur"
      using ex(2) by (intro bexI [of _ "appendToConversation content role now ex"]) simp_all
    ultimately show ?thesis using upd(2) by blast
  qed
  then show "currentConversationId ?s' = Some cur"
    and "\<exists>c \<in> set (conversations ?s'). conv_id c = cur"
    and "\<forall>c \<in> set (conversations state). conv_id c = cur \<longrightarrow>
           appendToConversation content role now c \<in> set (conversations ?s')"
    by blast+
qed

lemma loadSessions_frame [simp]:
  "conversations (loadSessions resp state) = conversations state"
  "currentConversationId (loadSessions resp state) = currentConversationId state"
  by (simp_all add: loadSessions_def Let_def split: response.splits option.splits)

text \<open>
  C7. In a store whose \<^verbatim>\<open>currentConversationId\<close> is \<^verbatim>\<open>null\<close>, appending a user message
  puts one new conversation in front of the list, holding exactly that message, under
  the id minted for it, and makes it the current conversation. This is the store that
  sendMessage leaves when only its optimistic phase has changed it (the request having
  failed).
\<close>

theorem addMessage_without_current:
  assumes "currentConversationId state = None"
  shows "conversations (addMessage content User now tempId state) =
           \<lparr>conv_id = tempId, title = createTitleFromContent content,
            messages = [\<lparr>msg_role = User, msg_content = content, timestamp = now\<rparr>],
            createdAt = now, lastUpdatedAt = now\<rparr> # conversations state \<and>
         currentConversationId (addMessage content User now tempId state) = Some tempId \<and>
         length (conversations (addMessage content User now tempId state)) =
           Suc (length (conversations state)) \<and>
         conversations (snd (sendMessage content now tempId Rejected now2 uuid2 sessResp state)) =
           conversations (addMessage content User now tempId state) \<and>
         currentConversationId (snd (sendMessage content now tempId Rejected now2 uuid2 sessResp state)) =
           Some tempId"
  using assms by (simp add: sendMessage_def addMessage_def Let_def)

text \<open>
  C7, witness: the first message in the initial store.
\<close>

theorem addMessage_without_current_witness:
  "conversations (addMessage ''Show me Q1 sales'' User (Clock 1)
       ''0f8b1c2d-3e4f-4a5b-8c6d-7e8f9a0b1c2d'' (initialStore ''key'' ''host'')) =
     [\<lparr>conv_id = ''0f8b1c2d-3e4f-4a5b-8c6d-7e8f9a0b1c2d'', title = ''Show me Q1 sales'',
       messages = [\<lparr>msg_role = User, msg_content = ''Show me Q1 sales'', timestamp = Clock 1\<rparr>],
       createdAt = Clock 1, lastUpdatedAt = Clock 1\<rparr>] \<and>
   currentConversationId (addMessage ''Show me Q1 sales'' User (Clock 1)
       ''0f8b1c2d-3e4f-4a5b-8c6d-7e8f9a0b1c2d'' (initialStore ''key'' ''host'')) =
     Some ''0f8b1c2d-3e4f-4a5b-8c6d-7e8f9a0b1c2d''"
proof -
  have none: "currentConversationId (initialStore ''key'' ''host'') = None"
    by (simp add: initialStore_def)
  have t: "createTitleFromContent ''Show me Q1 sales'' = ''Show me Q1 sales''"
    by (simp add: createTitleFromContent_def)
  show ?thesis
    using addMessage_without_current [OF none, of "''Show me Q1 sales''" "Clock 1"
        "''0f8b1c2d-3e4f-4a5b-8c6d-7e8f9a0b1c2d''"]
    by (simp add: t initialStore_def)
qed

section \<open>sendMessage\<close>

lemma list_ex_session_id:
  "list_ex (\<lambda>s. session_id s = c) ss \<longleftrightarrow> (\<exists>s \<in> set ss. session_id s = c)"
  by (simp add: list_ex_iff)

lemma chatRequestPayload_session_id:
  "payload_session_id (chatRequestPayload content state) = Some c \<longleftrightarrow>
   currentConversationId state = Some c \<and> (\<exists>s \<in> set (sessions state). session_id s = c) \<and>
   canonicalUuid c"
proof (cases "currentConversationId state")
  case None
  then show ?thesis by (simp add: chatRequestPayload_def)
next
  case (Some cur)
  have "canonicalUuid cur \<Longrightarrow> truthy cur"
    by (auto simp: canonicalUuid_def truthy_def)
  with Some show ?thesis
    by (auto simp: chatRequestPayload_def Let_def uuidPattern_test_canonical list_ex_session_id)
qed

lemma fst_sendMessage:
  "fst (sendMessage content now1 uuid1 resp now2 uuid2 sessResp state) =
   chatRequestPayload content (state\<lparr>isLoading := True\<rparr>)"
  by (simp add: sendMessage_def Let_def split: response.splits)

text \<open>
  C3. The payload posted by sendMessage holds a \<^verbatim>\<open>session_id\<close> exactly when
  \<^verbatim>\<open>currentConversationId\<close> is not \<^verbatim>\<open>null\<close>, is the id of a session of the sessions
  list and is a canonical UUID string, and then it is that id. In particular there is
  none when \<^verbatim>\<open>currentConversationId\<close> is \<^verbatim>\<open>null\<close>, or is not a canonical UUID string,
  whatever the sessions list holds.
\<close>

theorem sendMessage_payload_session_id:
  "(payload_session_id (fst (sendMessage content now1 uuid1 resp now2 uuid2 sessResp state)) = Some c
      \<longleftrightarrow> currentConversationId state = Some c \<and>
           (\<exists>s \<in> set (sessions state). session_id s = c) \<and> canonicalUuid c) \<and>
   (currentConversationId state = None \<longrightarrow>
      payload_session_id (fst (sendMessage content now1 uuid1 resp now2 uuid2 sessResp state)) = None) \<and>
   (\<forall>cur. currentConversationId state = Some cur \<and> \<not> canonicalUuid cur \<longrightarrow>
      payload_session_id (fst (sendMessage content now1 uuid1 resp now2 uuid2 sessResp state)) = None)"
proof -
  let ?p = "payload_session_id (fst (sendMessage content now1 uuid1 resp now2 uuid2 sessResp state))"
  have iff: "\<And>c. ?p = Some c \<longleftrightarrow> currentConversationId state = Some c \<and>
           (\<exists>s \<in> set (sessions state). session_id s = c) \<and> canonicalUuid c"
    by (simp add: fst_sendMessage chatRequestPayload_session_id)
  have none: "?p = None" if "currentConversationId state = None"
  proof (cases ?p)
    case (Some a)
    then have "currentConversationId state = Some a" using iff by blast
    with that show ?thesis by simp
  qed simp
  have bad: "?p = None" if "currentConversationId state = Some cur" "\<not> canonicalUuid cur" for cur
  proof (cases ?p)
    case (Some a)
    then have "currentConversationId state = Some a \<and> canonicalUuid a" using iff by blast
    with that show ?thesis by simp
  qed simp
  show ?thesis using iff none bad by blast
qed

text \<open>
  C3, witness: a current id that is a UUID of the sessions list is sent; the id
  \<^verbatim>\<open>temp-xyz\<close> is not, although the sessions list holds it.
\<close>

theorem sendMessage_payload_session_id_witness:
  "payload_session_id (fst (sendMessage ''And Q2?'' (Clock 5) ''0f8b1c2d-3e4f-4a5b-8c6d-7e8f9a0b1c2d''
       Rejected (Clock 6) ''9a8b7c6d-5e4f-4a3b-9c2d-1e0f9a8b7c6d'' Rejected
       ((initialStore ''key'' ''host'')
          \<lparr>sessions := [\<lparr>session_id = ''11111111-1111-1111-1111-111111111111'',
                          session_title = ''Q1'', created_at = ''2024-01-01'',
                          last_updated = ''2024-01-02'', message_count = 2\<rparr>],
            currentConversationId := Some ''11111111-1111-1111-1111-111111111111''\<rparr>)))
     = Some ''11111111-1111-1111-1111-111111111111'' \<and>
   payload_session_id (fst (sendMessage ''And Q2?'' (Clock 5) ''0f8b1c2d-3e4f-4a5b-8c6d-7e8f9a0b1c2d''
       Rejected (Clock 6) ''9a8b7c6d-5e4f-4a3b-9c2d-1e0f9a8b7c6d'' Rejected
       ((initialStore ''key'' ''host'')
          \<lparr>sessions := [\<lparr>session_id = ''temp-xyz'',
                          session_title = ''Q1'', created_at = ''2024-01-01'',
                          last_updated = ''2024-01-02'', message_count = 2\<rparr>],
            currentConversationId := Some ''temp-xyz''\<rparr>)))
     = None"
proof
  let ?u = "''11111111-1111-1111-1111-111111111111''"
  let ?st = "(initialStore ''key'' ''host'')
          \<lparr>sessions := [\<lparr>session_id = ?u,
                          session_title = ''Q1'', created_at = ''2024-01-01'',
                          last_updated = ''2024-01-02'', message_count = 2\<rparr>],
            currentConversationId := Some ?u\<rparr>"
  have cur: "currentConversationId ?st = Some ?u" by simp
  have mem: "\<exists>s \<in> set (sessions ?st). session_id s = ?u" by simp
  have pat: "canonicalUuid ?u" by code_simp
  from cur mem pat
  show "payload_session_id (fst (sendMessage ''And Q2?'' (Clock 5) ''0f8b1c2d-3e4f-4a5b-8c6d-7e8f9a0b1c2d''
       Rejected (Clock 6) ''9a8b7c6d-5e4f-4a3b-9c2d-1e0f9a8b7c6d'' Rejected ?st)) = Some ?u"
    using sendMessage_payload_session_id [THEN conjunct1, of _ _ _ _ _ _ _ ?st ?u] by blast
next
  let ?t = "''temp-xyz''"
  let ?st = "(initialStore ''key'' ''host'')
          \<lparr>sessions := [\<lparr>session_id = ?t,
                          session_title = ''Q1'', created_at = ''2024-01-01'',
                          last_updated = ''2024-01-02'', message_count = 2\<rparr>],
            currentConversationId := Some ?t\<rparr>"
  have cur: "currentConversationId ?st = Some ?t" by simp
  have pat: "\<not> canonicalUuid ?t" by code_simp
  from cur pat
  show "payload_session_id (fst (sendMessage ''And Q2?'' (Clock 5) ''0f8b1c2d-3e4f-4a5b-8c6d-7e8f9a0b1c2d''
       Rejected (Clock 6) ''9a8b7c6d-5e4f-4a3b-9c2d-1e0f9a8b7c6d'' Rejected ?st)) = None"
    using sendMessage_payload_session_id [THEN conjunct2, THEN conjunct2, of ?st] by blast
qed

text \<open>
  C8. When the chat request is rejected, the store is the one the optimistic addMessage
  left, with the loading flag cleared: the user message is the last message of the
  current conversation, and the sessions are untouched.
\<close>

theorem sendMessage_rejected:
  "(let state' = snd (sendMessage content now1 uuid1 Rejected now2 uuid2 sessResp state) in
      state' = (addMessage content User now1 uuid1 state)\<lparr>isLoading := False\<rparr> \<and>
      sessions state' = sessions state \<and>
      \<not> isLoading state' \<and>
      (\<exists>c \<in> set (conversations state').
          Some (conv_id c) = currentConversationId state' \<and> messages c \<noteq> [] \<and>
          last (messages c) = \<lparr>msg_role = User, msg_content = content, timestamp = now1\<rparr>))"
  using addMessage_current_holds_message [of content User now1 uuid1 state]
  by (simp add: sendMessage_def Let_def addMessage_isLoading)

text \<open>
  C8, witness: the first message in the initial store, the request failing.
\<close>

theorem sendMessage_rejected_witness:
  "snd (sendMessage ''Show me Q1 sales'' (Clock 1) ''0f8b1c2d-3e4f-4a5b-8c6d-7e8f9a0b1c2d''
          Rejected (Clock 2) ''9a8b7c6d-5e4f-4a3b-9c2d-1e0f9a8b7c6d'' Rejected
          (initialStore ''key'' ''host'')) =
   (initialStore ''key'' ''host'')
     \<lparr>conversations :=
        [\<lparr>conv_id = ''0f8b1c2d-3e4f-4a5b-8c6d-7e8f9a0b1c2d'', title = ''Show me Q1 sales'',
          messages = [\<lparr>msg_role = User, msg_content = ''Show me Q1 sales'', timestamp = Clock 1\<rparr>],
          createdAt = Clock 1, lastUpdatedAt = Clock 1\<rparr>],
      currentConversationId := Some ''0f8b1c2d-3e4f-4a5b-8c6d-7e8f9a0b1c2d''\<rparr>"
proof -
  have t: "createTitleFromContent ''Show me Q1 sales'' = ''Show me Q1 sales''"
    by (simp add: createTitleFromContent_def)
  show ?thesis
    using sendMessage_rejected [of "''Show me Q1 sales''" "Clock 1"
        "''0f8b1c2d-3e4f-4a5b-8c6d-7e8f9a0b1c2d''" "Clock 2"
        "''9a8b7c6d-5e4f-4a3b-9c2d-1e0f9a8b7c6d''" Rejected "initialStore ''key'' ''host''"]
    by (simp add: Let_def addMessage_def initialStore_def t)
qed

lemma sendMessage_resolved_adopt:
  assumes "currentConversationId state = Some C" "truthy C"
    and "truthy (generation d)" "truthy (chat_session_id d)" "chat_session_id d \<noteq> C"
  shows "snd (sendMessage content now1 uuid1 (Resolved d) now2 uuid2 sessResp state) =
         (loadSessions sessResp
            (adoptSessionId (Some C) (chat_session_id d)
               (addMessage (generation d) Assistant now2 uuid2
                  (addMessage content User now1 uuid1 (state\<lparr>isLoading := True\<rparr>)))))
         \<lparr>isLoading := False\<rparr>"
  using assms by (auto simp: sendMessage_def Let_def)

text \<open>
  C2, as amended. When sendMessage starts with a current id \<open>C\<close> that is not the empty
  string, and the chat request resolves with a non-empty generation and a session id
  \<open>S\<close> that is not the empty string and differs from \<open>C\<close>, then afterwards the current
  id is \<open>S\<close>, no conversation is keyed by \<open>C\<close>, some conversation is keyed by \<open>S\<close>, and
  every conversation that was keyed by \<open>C\<close> is found under \<open>S\<close> with the user message and
  the assistant message appended.
\<close>

theorem sendMessage_adopts_session_id:
  assumes "currentConversationId state = Some C" "C \<noteq> []"
    and "generation d \<noteq> []" "chat_session_id d = S" "S \<noteq> []" "S \<noteq> C"
  shows "let state' = snd (sendMessage content now1 uuid1 (Resolved d) now2 uuid2 sessResp state) in
           currentConversationId state' = Some S \<and>
           (\<forall>c \<in> set (conversations state'). conv_id c \<noteq> C) \<and>
           (\<exists>c \<in> set (conversations state'). conv_id c = S) \<and>
           (\<forall>c \<in> set (conversations state). conv_id c = C \<longrightarrow>
              (\<exists>c' \<in> set (conversations state').
                 conv_id c' = S \<and> createdAt c' = createdAt c \<and>
                 messages c' = messages c @
                   [\<lparr>msg_role = User, msg_content = content, timestamp = now1\<rparr>,
                    \<lparr>msg_role = Assistant, msg_content = generation d, timestamp = now2\<rparr>]))"
proof -
  let ?s1 = "state\<lparr>isLoading := True\<rparr>"
  let ?s2 = "addMessage content User now1 uuid1 ?s1"
  let ?s4 = "addMessage (generation d) Assistant now2 uuid2 ?s2"
  let ?rename = "\<lambda>c. if Some (conv_id c) = Some C then c\<lparr>conv_id := S\<rparr> else c"
  let ?state' = "snd (sendMessage content now1 uuid1 (Resolved d) now2 uuid2 sessResp state)"
  have C: "truthy C" using assms(2) by (simp add: truthy_def)
  have cur1: "currentConversationId ?s1 = Some C" using assms(1) by simp
  note a1 = addMessage_keeps_current [OF cur1 C, of content User now1 uuid1]
  note a2 = addMessage_keeps_current [OF a1(1) C, of "generation d" Assistant now2 uuid2]
  have "?state' = (loadSessions sessResp (adoptSessionId (Some C) S ?s4))\<lparr>isLoading := False\<rparr>"
    using sendMessage_resolved_adopt [OF assms(1) C, of d] assms(3-6) by (simp add: truthy_def)
  then have convs: "conversations ?state' = map ?rename (conversations ?s4)"
    and cur: "currentConversationId ?state' = Some S"
    using C by (simp_all add: adoptSessionId_def)
  have gone: "\<forall>c \<in> set (conversations ?state'). conv_id c \<noteq> C"
    unfolding convs using assms(6) by auto
  have moved: "c\<lparr>conv_id := S\<rparr> \<in> set (conversations ?state')"
    if "c \<in> set (conversations ?s4)" "conv_id c = C" for c
    unfolding convs using that by (intro in_set_map_if) simp_all
  from a2(2) obtain c4 where "c4 \<in> set (conversations ?s4)" "conv_id c4 = C" by blast
  from moved [OF this] have some: "\<exists>c \<in> set (conversations ?state'). conv_id c = S"
    by (intro bexI [of _ "c4\<lparr>conv_id := S\<rparr>"]) simp_all
  have each: "\<exists>c' \<in> set (conversations ?state').
                 conv_id c' = S \<and> createdAt c' = createdAt c \<and>
                 messages c' = messages c @
                   [\<lparr>msg_role = User, msg_content = content, timestamp = now1\<rparr>,
                    \<lparr>msg_role = Assistant, msg_content = generation d, timestamp = now2\<rparr>]"
    if c: "c \<in> set (conversations state)" "conv_id c = C" for c
  proof -
    let ?c2 = "appendToConversation content User now1 c"
    let ?c4 = "appendToConversation (generation d) Assistant now2 ?c2"
    from c a1(3) have "?c2 \<in> set (conversations ?s2)" by simp
    with a2(3) c(2) have "?c4 \<in> set (conversations ?s4)" by simp
    from moved [OF this] c(2) show ?thesis
      by (intro bexI [of _ "?c4\<lparr>conv_id := S\<rparr>"]) simp_all
  qed
  show ?thesis
    unfolding Let_def using cur gone some each by blast
qed

text \<open>
  C2, witness: the conversation \<^verbatim>\<open>temp-xyz\<close> is renamed to the session id of the response.
\<close>

theorem sendMessage_adopts_session_id_witness:
  "conversations (snd (sendMessage ''And Q2?'' (Clock 3) ''0f8b1c2d-3e4f-4a5b-8c6d-7e8f9a0b1c2d''
       (Resolved \<lparr>generation = ''Q2 grew'', chat_session_id = ''a1b2c3d4-e5f6-4789-8abc-def012345678'',
                  chat_messages = []\<rparr>)
       (Clock 4) ''9a8b7c6d-5e4f-4a3b-9c2d-1e0f9a8b7c6d'' Rejected
       ((initialStore ''key'' ''host'')
          \<lparr>conversations := [\<lparr>conv_id = ''temp-xyz'', title = ''Q1'', messages = [],
                              createdAt = Clock 1, lastUpdatedAt = Clock 1\<rparr>],
            currentConversationId := Some ''temp-xyz''\<rparr>))) =
     [\<lparr>conv_id = ''a1b2c3d4-e5f6-4789-8abc-def012345678'', title = ''And Q2?'',
       messages = [\<lparr>msg_role = User, msg_content = ''And Q2?'', timestamp = Clock 3\<rparr>,
                   \<lparr>msg_role = Assistant, msg_content = ''Q2 grew'', timestamp = Clock 4\<rparr>],
       createdAt = Clock 1, lastUpdatedAt = Clock 4\<rparr>] \<and>
   currentConversationId (snd (sendMessage ''And Q2?'' (Clock 3) ''0f8b1c2d-3e4f-4a5b-8c6d-7e8f9a0b1c2d''
       (Resolved \<lparr>generation = ''Q2 grew'', chat_session_id = ''a1b2c3d4-e5f6-4789-8abc-def012345678'',
                  chat_messages = []\<rparr>)
       (Clock 4) ''9a8b7c6d-5e4f-4a3b-9c2d-1e0f9a8b7c6d'' Rejected
       ((initialStore ''key'' ''host'')
          \<lparr>conversations := [\<lparr>conv_id = ''temp-xyz'', title = ''Q1'', messages = [],
                              createdAt = Clock 1, lastUpdatedAt = Clock 1\<rparr>],
            currentConversationId := Some ''temp-xyz''\<rparr>))) =
     Some ''a1b2c3d4-e5f6-4789-8abc-def012345678''"
proof -
  let ?S = "''a1b2c3d4-e5f6-4789-8abc-def012345678''"
  let ?d = "\<lparr>generation = ''Q2 grew'', chat_session_id = ?S, chat_messages = []\<rparr>"
  let ?st = "(initialStore ''key'' ''host'')
          \<lparr>conversations := [\<lparr>conv_id = ''temp-xyz'', title = ''Q1'', messages = [],
                              createdAt = Clock 1, lastUpdatedAt = Clock 1\<rparr>],
            currentConversationId := Some ''temp-xyz''\<rparr>"
  let ?st' = "snd (sendMessage ''And Q2?'' (Clock 3) ''0f8b1c2d-3e4f-4a5b-8c6d-7e8f9a0b1c2d''
       (Resolved ?d) (Clock 4) ''9a8b7c6d-5e4f-4a3b-9c2d-1e0f9a8b7c6d'' Rejected ?st)"
  have cur: "currentConversationId ?st = Some ''temp-xyz''" by simp
  have ne: "''temp-xyz'' \<noteq> []" "generation ?d \<noteq> []" "chat_session_id ?d = ?S" "?S \<noteq> []"
    "?S \<noteq> ''temp-xyz''" by simp_all
  have "currentConversationId ?st' = Some ?S"
    using sendMessage_adopts_session_id [OF cur ne, of "''And Q2?''" "Clock 3"
        "''0f8b1c2d-3e4f-4a5b-8c6d-7e8f9a0b1c2d''" "Clock 4"
        "''9a8b7c6d-5e4f-4a3b-9c2d-1e0f9a8b7c6d''" Rejected]
    by (simp add: Let_def)
  moreover have "conversations ?st' =
     [\<lparr>conv_id = ?S, title = ''And Q2?'',
       messages = [\<lparr>msg_role = User, msg_content = ''And Q2?'', timestamp = Clock 3\<rparr>,
                   \<lparr>msg_role = Assistant, msg_content = ''Q2 grew'', timestamp = Clock 4\<rparr>],
       createdAt = Clock 1, lastUpdatedAt = Clock 4\<rparr>]"
    by (simp add: sendMessage_def addMessage_def adoptSessionId_def loadSessions_def
        appendToConversation_def createTitleFromContent_def truthy_def initialStore_def Let_def)
  ultimately show ?thesis by blast
qed

text \<open>
  C2, counterexample. With the empty string as the response's session id, the
  conversation stays keyed by \<^verbatim>\<open>temp-xyz\<close>, which stays current. With the empty string as
  the current id, a conversation keyed by it stays keyed by it (a new conversation is
  made for the messages).
\<close>

theorem sendMessage_empty_id_counterexample:
  "map conv_id (conversations (snd (sendMessage ''And Q2?'' (Clock 3)
       ''0f8b1c2d-3e4f-4a5b-8c6d-7e8f9a0b1c2d''
       (Resolved \<lparr>generation = ''Q2 grew'', chat_session_id = [], chat_messages = []\<rparr>)
       (Clock 4) ''9a8b7c6d-5e4f-4a3b-9c2d-1e0f9a8b7c6d'' Rejected
       ((initialStore ''key'' ''host'')
          \<lparr>conversations := [\<lparr>conv_id = ''temp-xyz'', title = ''Q1'', messages = [],
                              createdAt = Clock 1, lastUpdatedAt = Clock 1\<rparr>],
            currentConversationId := Some ''temp-xyz''\<rparr>)))) = [''temp-xyz''] \<and>
   currentConversationId (snd (sendMessage ''And Q2?'' (Clock 3)
       ''0f8b1c2d-3e4f-4a5b-8c6d-7e8f9a0b1c2d''
       (Resolved \<lparr>generation = ''Q2 grew'', chat_session_id = [], chat_messages = []\<rparr>)
       (Clock 4) ''9a8b7c6d-5e4f-4a3b-9c2d-1e0f9a8b7c6d'' Rejected
       ((initialStore ''key'' ''host'')
          \<lparr>conversations := [\<lparr>conv_id = ''temp-xyz'', title = ''Q1'', messages = [],
                              createdAt = Clock 1, lastUpdatedAt = Clock 1\<rparr>],
            currentConversationId := Some ''temp-xyz''\<rparr>))) = Some ''temp-xyz'' \<and>
   map conv_id (conversations (snd (sendMessage ''And Q2?'' (Clock 3)
       ''0f8b1c2d-3e4f-4a5b-8c6d-7e8f9a0b1c2d''
       (Resolved \<lparr>generation = ''Q2 grew'', chat_session_id = ''a1b2c3d4-e5f6-4789-8abc-def012345678'',
                  chat_messages = []\<rparr>)
       (Clock 4) ''9a8b7c6d-5e4f-4a3b-9c2d-1e0f9a8b7c6d'' Rejected
       ((initialStore ''key'' ''host'')
          \<lparr>conversations := [\<lparr>conv_id = [], title = ''Q1'', messages = [],
                              createdAt = Clock 1, lastUpdatedAt = Clock 1\<rparr>],
            currentConversationId := Some []\<rparr>)))) =
     [''0f8b1c2d-3e4f-4a5b-8c6d-7e8f9a0b1c2d'', []]"
  by (simp add: sendMessage_def addMessage_def adoptSessionId_def loadSessions_def
      appendToConversation_def createTitleFromContent_def truthy_def initialStore_def
      chatRequestPayload_def Let_def)

text \<open>
  C1, what the code does. From a store without conversations and without a current
  conversation, a resolved chat request with a non-empty generation and a non-empty
  session id leaves one conversation with the user message and the assistant message,
  still keyed by the temporary id, while \<^verbatim>\<open>currentConversationId\<close> is the session id of
  the response; the sessions are those of the sessions request when it resolves.
\<close>

theorem sendMessage_first_message:
  assumes "conversations state = []" "currentConversationId state = None"
    and "uuid1 \<noteq> []" "generation d \<noteq> []" "chat_session_id d \<noteq> []"
  shows "let state' = snd (sendMessage content now1 uuid1 (Resolved d) now2 uuid2 sessResp state) in
           conversations state' =
             [\<lparr>conv_id = uuid1, title = createTitleFromContent content,
               messages = [\<lparr>msg_role = User, msg_content = content, timestamp = now1\<rparr>,
                           \<lparr>msg_role = Assistant, msg_content = generation d, timestamp = now2\<rparr>],
               createdAt = now1, lastUpdatedAt = now2\<rparr>] \<and>
           currentConversationId state' = Some (chat_session_id d) \<and>
           sessions state' =
             (case sessResp of
                Rejected \<Rightarrow> sessions state
              | Resolved r \<Rightarrow> (case resp_sessions r of Some ss \<Rightarrow> ss | None \<Rightarrow> sessions state)) \<and>
           \<not> isLoading state'"
  using assms
  by (simp add: sendMessage_def addMessage_def adoptSessionId_def loadSessions_def
      appendToConversation_def truthy_def Let_def split: response.splits option.splits)

text \<open>
  C1, at the scenario of the specification: the conversation's id is the temporary id,
  not the session id of the response.
\<close>

theorem sendMessage_first_message_witness:
  "conversations (snd (sendMessage ''Show me Q1 sales'' (Clock 1)
       ''0f8b1c2d-3e4f-4a5b-8c6d-7e8f9a0b1c2d''
       (Resolved \<lparr>generation = ''Here are your Q1 results'',
                  chat_session_id = ''a1b2c3d4-e5f6-4789-8abc-def012345678'',
                  chat_messages = []\<rparr>)
       (Clock 2) ''9a8b7c6d-5e4f-4a3b-9c2d-1e0f9a8b7c6d''
       (Resolved \<lparr>resp_sessions = Some []\<rparr>) (initialStore ''key'' ''host''))) =
     [\<lparr>conv_id = ''0f8b1c2d-3e4f-4a5b-8c6d-7e8f9a0b1c2d'', title = ''Show me Q1 sales'',
       messages = [\<lparr>msg_role = User, msg_content = ''Show me Q1 sales'', timestamp = Clock 1\<rparr>,
                   \<lparr>msg_role = Assistant, msg_content = ''Here are your Q1 results'',
                    timestamp = Clock 2\<rparr>],
       createdAt = Clock 1, lastUpdatedAt = Clock 2\<rparr>] \<and>
   currentConversationId (snd (sendMessage ''Show me Q1 sales'' (Clock 1)
       ''0f8b1c2d-3e4f-4a5b-8c6d-7e8f9a0b1c2d''
       (Resolved \<lparr>generation = ''Here are your Q1 results'',
                  chat_session_id = ''a1b2c3d4-e5f6-4789-8abc-def012345678'',
                  chat_messages = []\<rparr>)
       (Clock 2) ''9a8b7c6d-5e4f-4a3b-9c2d-1e0f9a8b7c6d''
       (Resolved \<lparr>resp_sessions = Some []\<rparr>) (initialStore ''key'' ''host''))) =
     Some ''a1b2c3d4-e5f6-4789-8abc-def012345678''"
proof -
  let ?d = "\<lparr>generation = ''Here are your Q1 results'',
             chat_session_id = ''a1b2c3d4-e5f6-4789-8abc-def012345678'',
             chat_messages = []\<rparr>"
  have empty: "conversations (initialStore ''key'' ''host'') = []"
    and none: "currentConversationId (initialStore ''key'' ''host'') = None"
    by (simp_all add: initialStore_def)
  have u: "''0f8b1c2d-3e4f-4a5b-8c6d-7e8f9a0b1c2d'' \<noteq> []" by simp
  have g: "generation ?d \<noteq> []" and sid: "chat_session_id ?d \<noteq> []" by simp_all
  have t: "createTitleFromContent ''Show me Q1 sales'' = ''Show me Q1 sales''"
    by (simp add: createTitleFromContent_def)
  show ?thesis
    using sendMessage_first_message [OF empty none u g sid, of "''Show me Q1 sales''" "Clock 1"
        "Clock 2" "''9a8b7c6d-5e4f-4a3b-9c2d-1e0f9a8b7c6d''" "Resolved \<lparr>resp_sessions = Some []\<rparr>"]
    by (simp add: Let_def t)
qed

section \<open>connect and deleteSession\<close>

text \<open>
  C5. connect returns \<^verbatim>\<open>true\<close> exactly when the health probe resolves with the status
  \<^verbatim>\<open>healthy\<close>; then, whatever the store held before and whatever the sessions request
  does, there is no conversation, no current conversation, and the store is connected.
\<close>

theorem connect_healthy:
  "(fst (connect healthCheck sessResp state) \<longleftrightarrow>
      (\<exists>data. healthCheck = Resolved data \<and> health_status data = ''healthy'')) \<and>
   (fst (connect healthCheck sessResp state) \<longrightarrow>
      conversations (snd (connect healthCheck sessResp state)) = [] \<and>
      currentConversationId (snd (connect healthCheck sessResp state)) = None \<and>
      isConnected (snd (connect healthCheck sessResp state)))"
  by (auto simp: connect_def loadSessions_def Let_def split: response.splits option.splits)

text \<open>
  C5, witness: a store with one conversation, which is current.
\<close>

theorem connect_healthy_witness:
  "fst (connect (Resolved \<lparr>health_status = ''healthy''\<rparr>) (Resolved \<lparr>resp_sessions = Some []\<rparr>)
          ((initialStore ''key'' ''host'')
             \<lparr>conversations := [\<lparr>conv_id = ''c1'', title = ''Old'', messages = [],
                                 createdAt = Clock 1, lastUpdatedAt = Clock 1\<rparr>],
               currentConversationId := Some ''c1''\<rparr>)) \<and>
   conversations (snd (connect (Resolved \<lparr>health_status = ''healthy''\<rparr>)
          (Resolved \<lparr>resp_sessions = Some []\<rparr>)
          ((initialStore ''key'' ''host'')
             \<lparr>conversations := [\<lparr>conv_id = ''c1'', title = ''Old'', messages = [],
                                 createdAt = Clock 1, lastUpdatedAt = Clock 1\<rparr>],
               currentConversationId := Some ''c1''\<rparr>))) = [] \<and>
   currentConversationId (snd (connect (Resolved \<lparr>health_status = ''healthy''\<rparr>)
          (Resolved \<lparr>resp_sessions = Some []\<rparr>)
          ((initialStore ''key'' ''host'')
             \<lparr>conversations := [\<lparr>conv_id = ''c1'', title = ''Old'', messages = [],
                                 createdAt = Clock 1, lastUpdatedAt = Clock 1\<rparr>],
               currentConversationId := Some ''c1''\<rparr>))) = None"
proof -
  let ?h = "Resolved \<lparr>health_status = ''healthy''\<rparr>"
  let ?sr = "Resolved \<lparr>resp_sessions = Some []\<rparr>"
  let ?st = "(initialStore ''key'' ''host'')
             \<lparr>conversations := [\<lparr>conv_id = ''c1'', title = ''Old'', messages = [],
                                 createdAt = Clock 1, lastUpdatedAt = Clock 1\<rparr>],
               currentConversationId := Some ''c1''\<rparr>"
  have ok: "fst (connect ?h ?sr ?st)"
    using connect_healthy [THEN conjunct1, of ?h ?sr ?st] by simp
  with connect_healthy [THEN conjunct2, of ?h ?sr ?st] show ?thesis by blast
qed

text \<open>
  C6. When the remote delete resolves, the conversations and the sessions with the id are
  filtered out, \<^verbatim>\<open>currentConversationId\<close> becomes \<^verbatim>\<open>null\<close> if it was the id and is
  unchanged otherwise, and the loading flag is cleared. When the remote delete is
  rejected, only the loading flag is cleared. deleteConversation is deleteSession.
\<close>

theorem deleteSession_outcomes:
  "(let state' = deleteSession sessionId (Resolved u) state in
      conversations state' = filter (\<lambda>c. conv_id c \<noteq> sessionId) (conversations state) \<and>
      sessions state' = filter (\<lambda>s. session_id s \<noteq> sessionId) (sessions state) \<and>
      (\<forall>c \<in> set (conversations state'). conv_id c \<noteq> sessionId) \<and>
      (\<forall>s \<in> set (sessions state'). session_id s \<noteq> sessionId) \<and>
      (currentConversationId state = Some sessionId \<longrightarrow> currentConversationId state' = None) \<and>
      (currentConversationId state \<noteq> Some sessionId \<longrightarrow>
         currentConversationId state' = currentConversationId state) \<and>
      \<not> isLoading state') \<and>
   deleteSession sessionId Rejected state = state\<lparr>isLoading := False\<rparr> \<and>
   deleteConversation sessionId resp state = deleteSession sessionId resp state"
  by (simp add: deleteSession_def deleteConversation_def Let_def)

text \<open>
  C6, witness: deleting the current conversation, and deleting another one.
\<close>

theorem deleteSession_outcomes_witness:
  "deleteSession ''c1'' (Resolved ())
     ((initialStore ''key'' ''host'')
        \<lparr>conversations := [\<lparr>conv_id = ''c1'', title = ''One'', messages = [],
                            createdAt = Clock 1, lastUpdatedAt = Clock 1\<rparr>,
                           \<lparr>conv_id = ''c2'', title = ''Two'', messages = [],
                            createdAt = Clock 2, lastUpdatedAt = Clock 2\<rparr>],
          currentConversationId := Some ''c1''\<rparr>) =
   (initialStore ''key'' ''host'')
        \<lparr>conversations := [\<lparr>conv_id = ''c2'', title = ''Two'', messages = [],
                            createdAt = Clock 2, lastUpdatedAt = Clock 2\<rparr>]\<rparr> \<and>
   currentConversationId (deleteSession ''c2'' (Resolved ())
     ((initialStore ''key'' ''host'')
        \<lparr>conversations := [\<lparr>conv_id = ''c1'', title = ''One'', messages = [],
                            createdAt = Clock 1, lastUpdatedAt = Clock 1\<rparr>,
                           \<lparr>conv_id = ''c2'', title = ''Two'', messages = [],
                            createdAt = Clock 2, lastUpdatedAt = Clock 2\<rparr>],
          currentConversationId := Some ''c1''\<rparr>)) = Some ''c1''"
proof -
  let ?st = "(initialStore ''key'' ''host'')
        \<lparr>conversations := [\<lparr>conv_id = ''c1'', title = ''One'', messages = [],
                            createdAt = Clock 1, lastUpdatedAt = Clock 1\<rparr>,
                           \<lparr>conv_id = ''c2'', title = ''Two'', messages = [],
                            createdAt = Clock 2, lastUpdatedAt = Clock 2\<rparr>],
          currentConversationId := Some ''c1''\<rparr>"
  have "currentConversationId ?st \<noteq> Some ''c2''" by simp
  then have "currentConversationId (deleteSession ''c2'' (Resolved ()) ?st) = Some ''c1''"
    using deleteSession_outcomes [THEN conjunct1, of "''c2''" "()" ?st]
    by (simp add: Let_def)
  moreover have "deleteSession ''c1'' (Resolved ()) ?st =
    (initialStore ''key'' ''host'')
        \<lparr>conversations := [\<lparr>conv_id = ''c2'', title = ''Two'', messages = [],
                            createdAt = Clock 2, lastUpdatedAt = Clock 2\<rparr>]\<rparr>"
    by (simp add: deleteSession_def initialStore_def)
  ultimately show ?thesis by blast
qed

section \<open>Temporary ids and the session id pattern\<close>

lemma isLowerHexDigit_isHexDigit: "isLowerHexDigit c \<Longrightarrow> isHexDigit c"
  by (auto simp: isLowerHexDigit_def isHexDigit_def)

lemma list_all_lower_hex: "list_all isLowerHexDigit xs \<Longrightarrow> list_all isHexDigit xs"
  by (auto simp: list_all_iff isLowerHexDigit_isHexDigit)

lemma take_Suc_drop: "k < length s \<Longrightarrow> take (Suc n) (drop k s) = s ! k # take n (drop (Suc k) s)"
  by (simp add: Cons_nth_drop_Suc [symmetric])

lemma uuidv4Format_canonical:
  assumes "uuidv4Format s"
  shows "canonicalUuid s"
proof -
  from assms have len: "length s = 36" by (simp add: uuidv4Format_def)
  have g3: "take 4 (drop 14 s) = s ! 14 # take 3 (drop 15 s)"
    using take_Suc_drop [of 14 s 3] len by simp
  have g4: "take 4 (drop 19 s) = s ! 19 # take 3 (drop 20 s)"
    using take_Suc_drop [of 19 s 3] len by simp
  have v: "isHexDigit (s ! 14)" "isHexDigit (s ! 19)"
    using assms by (auto simp: uuidv4Format_def isHexDigit_def)
  from assms v show ?thesis
    unfolding canonicalUuid_def g3 g4
    by (simp add: uuidv4Format_def list_all_lower_hex)
qed

text \<open>
  C10. When addMessage mints a temporary id and that id is a version-4 UUID string, it
  becomes the current id and matches the pattern of sendMessage; the payload of a
  following sendMessage then holds it as \<^verbatim>\<open>session_id\<close> exactly when the sessions list
  holds a session with that id.
\<close>

theorem temporary_id_matches_pattern:
  assumes "\<not> truthy_opt (currentConversationId state)" "uuidv4Format tempId"
  shows "let state' = addMessage content role now tempId state in
           currentConversationId state' = Some tempId \<and>
           uuidPattern_test tempId \<and>
           payload_session_id
             (fst (sendMessage content' now1 uuid1 resp now2 uuid2 sessResp state')) =
             (if list_ex (\<lambda>s. session_id s = tempId) (sessions state') then Some tempId else None)"
proof -
  let ?state' = "addMessage content role now tempId state"
  have cur: "currentConversationId ?state' = Some tempId"
    using assms(1) by (simp add: addMessage_def Let_def)
  have pat: "uuidPattern_test tempId"
    using assms(2) by (simp add: uuidPattern_test_canonical uuidv4Format_canonical)
  have "truthy tempId"
    using assms(2) by (auto simp: uuidv4Format_def truthy_def)
  with cur pat
  have "payload_session_id (fst (sendMessage content' now1 uuid1 resp now2 uuid2 sessResp ?state')) =
        (if list_ex (\<lambda>s. session_id s = tempId) (sessions ?state') then Some tempId else None)"
    by (simp add: fst_sendMessage chatRequestPayload_def Let_def)
  with cur pat show ?thesis by (simp add: Let_def)
qed

text \<open>
  C10, witness: the temporary id of the first message is not sent, no session having it.
\<close>

theorem temporary_id_matches_pattern_witness:
  "uuidv4Format ''0f8b1c2d-3e4f-4a5b-8c6d-7e8f9a0b1c2d'' \<and>
   uuidPattern_test ''0f8b1c2d-3e4f-4a5b-8c6d-7e8f9a0b1c2d'' \<and>
   payload_session_id (fst (sendMessage ''And Q2?'' (Clock 3) ''9a8b7c6d-5e4f-4a3b-9c2d-1e0f9a8b7c6d''
       Rejected (Clock 4) ''9a8b7c6d-5e4f-4a3b-9c2d-1e0f9a8b7c6d'' Rejected
       (addMessage ''Show me Q1 sales'' User (Clock 1) ''0f8b1c2d-3e4f-4a5b-8c6d-7e8f9a0b1c2d''
          (initialStore ''key'' ''host'')))) = None"
proof -
  let ?t = "''0f8b1c2d-3e4f-4a5b-8c6d-7e8f9a0b1c2d''"
  have no: "\<not> truthy_opt (currentConversationId (initialStore ''key'' ''host''))"
    by (simp add: initialStore_def)
  have fmt: "uuidv4Format ?t" by code_simp
  have "\<not> list_ex (\<lambda>s. session_id s = ?t)
          (sessions (addMessage ''Show me Q1 sales'' User (Clock 1) ?t (initialStore ''key'' ''host'')))"
    by (simp add: initialStore_def)
  with temporary_id_matches_pattern [OF no fmt, of "''Show me Q1 sales''" User "Clock 1"
      "''And Q2?''" "Clock 3" "''9a8b7c6d-5e4f-4a3b-9c2d-1e0f9a8b7c6d''" Rejected "Clock 4"
      "''9a8b7c6d-5e4f-4a3b-9c2d-1e0f9a8b7c6d''" Rejected] fmt
  show ?thesis by (simp add: Let_def)
qed

section \<open>At most one conversation per id\<close>

lemma uniqueIds_isLoading [simp]: "uniqueIds (state\<lparr>isLoading := b\<rparr>) = uniqueIds state"
  by (simp add: uniqueIds_def)

lemma mintsFresh_isLoading [simp]: "mintsFresh t (state\<lparr>isLoading := b\<rparr>) = mintsFresh t state"
  by (simp add: mintsFresh_def)

lemma uniqueIds_currentConversationId [simp]:
  "uniqueIds (state\<lparr>currentConversationId := c\<rparr>) = uniqueIds state"
  by (simp add: uniqueIds_def)

lemma map_conv_id_append:
  "map conv_id (map (\<lambda>conv. if conv_id conv = cur then appendToConversation content role now conv
                              else conv) xs) = map conv_id xs"
  by (induction xs) auto

lemma uniqueIds_addMessage:
  assumes "uniqueIds state" "mintsFresh tempId state"
  shows "uniqueIds (addMessage content role now tempId state)"
proof (cases "truthy_opt (currentConversationId state)")
  case False
  with assms show ?thesis
    by (simp add: addMessage_def uniqueIds_def mintsFresh_def Let_def)
next
  case True
  then obtain cur where cur: "currentConversationId state = Some cur"
    by (cases "currentConversationId state") auto
  show ?thesis
  proof (cases "find (\<lambda>conv. conv_id conv = cur) (conversations state)")
    case None
    then have "cur \<notin> set (map conv_id (conversations state))"
      by (auto simp: find_None_iff)
    with assms(1) True cur None show ?thesis
      by (simp add: addMessage_def uniqueIds_def Let_def)
  next
    case (Some ex)
    with True cur have "conversations (addMessage content role now tempId state) =
        map (\<lambda>conv. if conv_id conv = cur then appendToConversation content role now conv
                    else conv) (conversations state)"
      by (simp add: addMessage_def Let_def)
    with assms(1) show ?thesis
      unfolding uniqueIds_def by (simp only: map_conv_id_append)
  qed
qed

lemma uniqueIds_loadSessions [simp]: "uniqueIds (loadSessions resp state) = uniqueIds state"
  by (simp add: uniqueIds_def loadSessions_def Let_def split: response.splits option.splits)

lemma uniqueIds_loadConversation:
  "uniqueIds state \<Longrightarrow> uniqueIds (loadConversation sessionId resp state)"
  by (auto simp: uniqueIds_def loadConversation_def Let_def distinct_map_filter
      split: response.splits option.splits)

lemma distinct_map_rename:
  "distinct xs \<Longrightarrow> b \<notin> set xs \<Longrightarrow> distinct (map (\<lambda>i. if i = a then b else i) xs)"
  by (induction xs) auto

lemma uniqueIds_adoptSessionId:
  assumes "uniqueIds state"
    and "truthy_opt capturedId \<longrightarrow> receivedSessionId \<notin> set (map conv_id (conversations state))"
  shows "uniqueIds (adoptSessionId capturedId receivedSessionId state)"
proof (cases "truthy_opt capturedId")
  case False
  with assms(1) show ?thesis by (simp add: adoptSessionId_def)
next
  case True
  then obtain C where C: "capturedId = Some C" by (cases capturedId) auto
  let ?rename = "\<lambda>c. if Some (conv_id c) = capturedId then c\<lparr>conv_id := receivedSessionId\<rparr> else c"
  have ids: "map conv_id (map ?rename xs) =
        map (\<lambda>i. if i = C then receivedSessionId else i) (map conv_id xs)" for xs
    using C by (induction xs) auto
  have convs: "conversations (adoptSessionId capturedId receivedSessionId state) =
        map ?rename (conversations state)"
    using True by (simp add: adoptSessionId_def)
  from assms True
  have "distinct (map (\<lambda>i. if i = C then receivedSessionId else i)
                   (map conv_id (conversations state)))"
    unfolding uniqueIds_def by (intro distinct_map_rename) simp_all
  then show ?thesis
    unfolding uniqueIds_def convs ids .
qed

lemma uniqueIds_sendMessage:
  assumes "uniqueIds state"
    and "admissible (SendMessage content now1 uuid1 resp now2 uuid2 sessResp) state"
  shows "uniqueIds (snd (sendMessage content now1 uuid1 resp now2 uuid2 sessResp state))"
proof -
  let ?s2 = "addMessage content User now1 uuid1 (state\<lparr>isLoading := True\<rparr>)"
  have s2: "uniqueIds ?s2"
    using assms by (intro uniqueIds_addMessage) simp_all
  show ?thesis
  proof (cases resp)
    case Rejected
    with s2 show ?thesis by (simp add: sendMessage_def Let_def)
  next
    case (Resolved data)
    show ?thesis
    proof (cases "truthy (generation data)")
      case False
      with s2 Resolved show ?thesis by (simp add: sendMessage_def Let_def)
    next
      case True
      let ?s4 = "addMessage (generation data) Assistant now2 uuid2 ?s2"
      from assms(2) Resolved True
      have fresh2: "mintsFresh uuid2 ?s2"
        and adopt: "adoptsFresh (currentConversationId state) (chat_session_id data) ?s4"
        by (simp_all add: Let_def)
      have s4: "uniqueIds ?s4" using s2 fresh2 by (rule uniqueIds_addMessage)
      show ?thesis
      proof (cases "truthy (chat_session_id data) \<and>
                    (\<not> truthy_opt (currentConversationId state) \<or>
                     currentConversationId state \<noteq> Some (chat_session_id data))")
        case False
        with s4 Resolved True show ?thesis by (auto simp: sendMessage_def Let_def)
      next
        case adopted: True
        then have "truthy_opt (currentConversationId state) \<longrightarrow>
                   chat_session_id data \<notin> set (map conv_id (conversations ?s4))"
          using adopt by (auto simp: adoptsFresh_def)
        with s4 have "uniqueIds (adoptSessionId (currentConversationId state)
                                  (chat_session_id data) ?s4)"
          by (rule uniqueIds_adoptSessionId)
        with Resolved True adopted show ?thesis by (auto simp: sendMessage_def Let_def)
      qed
    qed
  qed
qed

lemma uniqueIds_deleteSession:
  "uniqueIds state \<Longrightarrow> uniqueIds (deleteSession sessionId resp state)"
  by (auto simp: uniqueIds_def deleteSession_def Let_def distinct_map_filter
      split: response.splits)

lemma uniqueIds_perform:
  "uniqueIds state \<Longrightarrow> admissible opn state \<Longrightarrow> uniqueIds (perform opn state)"
proof (cases opn)
  case (SendMessage content now1 uuid1 resp now2 uuid2 sessResp)
  assume "uniqueIds state" "admissible opn state"
  with SendMessage show ?thesis using uniqueIds_sendMessage by simp
next
  case (AddMessage content role now tempId)
  assume "uniqueIds state" "admissible opn state"
  with AddMessage show ?thesis by (simp add: uniqueIds_addMessage)
next
  case (Connect healthCheck sessResp)
  assume "uniqueIds state"
  with Connect show ?thesis
    by (auto simp: connect_def Let_def uniqueIds_def split: response.splits)
next
  case (SetCurrentConversation cid resp)
  assume "uniqueIds state"
  with SetCurrentConversation show ?thesis
    by (simp add: setCurrentConversation_def uniqueIds_loadConversation split: option.splits)
qed (simp_all add: uniqueIds_loadConversation uniqueIds_deleteSession deleteConversation_def,
     simp_all add: uniqueIds_def setApiKey_def setUserId_def setApiHost_def
       startNewConversation_def addFile_def updateFile_def removeFile_def setLoading_def)

lemma uniqueIds_run:
  "uniqueIds state \<Longrightarrow> admissibleRun ops state \<Longrightarrow> uniqueIds (run ops state)"
  by (induction ops arbitrary: state) (auto simp: uniqueIds_perform)

lemma admissibleRun_take: "admissibleRun ops state \<Longrightarrow> admissibleRun (take n ops) state"
proof (induction ops arbitrary: state n)
  case Nil
  then show ?case by simp
next
  case (Cons opn ops)
  then show ?case by (cases n) auto
qed

text \<open>
  C9, as amended. Along every admissible run of operations that starts in a store with
  at most one conversation per id, every store reached has at most one conversation per
  id.
\<close>

theorem uniqueIds_invariant:
  assumes "uniqueIds state" "admissibleRun ops state"
  shows "\<forall>n. uniqueIds (run (take n ops) state)"
  using assms by (auto intro: uniqueIds_run admissibleRun_take)

text \<open>
  C9, witness: from the initial store, a first message, the selection of the temporary
  conversation, and a second message whose response renames it.
\<close>

theorem uniqueIds_invariant_witness:
  "uniqueIds (initialStore ''key'' ''host'') \<and>
   admissibleRun
     [SendMessage ''Show me Q1 sales'' (Clock 1) ''0f8b1c2d-3e4f-4a5b-8c6d-7e8f9a0b1c2d''
        (Resolved \<lparr>generation = ''Here are your Q1 results'',
                   chat_session_id = ''a1b2c3d4-e5f6-4789-8abc-def012345678'',
                   chat_messages = []\<rparr>)
        (Clock 2) ''9a8b7c6d-5e4f-4a3b-9c2d-1e0f9a8b7c6d'' Rejected,
      SetCurrentConversation ''0f8b1c2d-3e4f-4a5b-8c6d-7e8f9a0b1c2d'' Rejected,
      SendMessage ''And Q2?'' (Clock 3) ''9a8b7c6d-5e4f-4a3b-9c2d-1e0f9a8b7c6d''
        (Resolved \<lparr>generation = ''Q2 grew'',
                   chat_session_id = ''b2c3d4e5-f6a7-4890-9bcd-ef0123456789'',
                   chat_messages = []\<rparr>)
        (Clock 4) ''9a8b7c6d-5e4f-4a3b-9c2d-1e0f9a8b7c6d'' Rejected]
     (initialStore ''key'' ''host'') \<and>
   map conv_id (conversations (run
     [SendMessage ''Show me Q1 sales'' (Clock 1) ''0f8b1c2d-3e4f-4a5b-8c6d-7e8f9a0b1c2d''
        (Resolved \<lparr>generation = ''Here are your Q1 results'',
                   chat_session_id = ''a1b2c3d4-e5f6-4789-8abc-def012345678'',
                   chat_messages = []\<rparr>)
        (Clock 2) ''9a8b7c6d-5e4f-4a3b-9c2d-1e0f9a8b7c6d'' Rejected,
      SetCurrentConversation ''0f8b1c2d-3e4f-4a5b-8c6d-7e8f9a0b1c2d'' Rejected,
      SendMessage ''And Q2?'' (Clock 3) ''9a8b7c6d-5e4f-4a3b-9c2d-1e0f9a8b7c6d''
        (Resolved \<lparr>generation = ''Q2 grew'',
                   chat_session_id = ''b2c3d4e5-f6a7-4890-9bcd-ef0123456789'',
                   chat_messages = []\<rparr>)
        (Clock 4) ''9a8b7c6d-5e4f-4a3b-9c2d-1e0f9a8b7c6d'' Rejected]
     (initialStore ''key'' ''host''))) = [''b2c3d4e5-f6a7-4890-9bcd-ef0123456789''] \<and>
   uniqueIds (run
     [SendMessage ''Show me Q1 sales'' (Clock 1) ''0f8b1c2d-3e4f-4a5b-8c6d-7e8f9a0b1c2d''
        (Resolved \<lparr>generation = ''Here are your Q1 results'',
                   chat_session_id = ''a1b2c3d4-e5f6-4789-8abc-def012345678'',
                   chat_messages = []\<rparr>)
        (Clock 2) ''9a8b7c6d-5e4f-4a3b-9c2d-1e0f9a8b7c6d'' Rejected,
      SetCurrentConversation ''0f8b1c2d-3e4f-4a5b-8c6d-7e8f9a0b1c2d'' Rejected,
      SendMessage ''And Q2?'' (Clock 3) ''9a8b7c6d-5e4f-4a3b-9c2d-1e0f9a8b7c6d''
        (Resolved \<lparr>generation = ''Q2 grew'',
                   chat_session_id = ''b2c3d4e5-f6a7-4890-9bcd-ef0123456789'',
                   chat_messages = []\<rparr>)
        (Clock 4) ''9a8b7c6d-5e4f-4a3b-9c2d-1e0f9a8b7c6d'' Rejected]
     (initialStore ''key'' ''host''))"
proof -
  let ?ops = "[SendMessage ''Show me Q1 sales'' (Clock 1) ''0f8b1c2d-3e4f-4a5b-8c6d-7e8f9a0b1c2d''
        (Resolved \<lparr>generation = ''Here are your Q1 results'',
                   chat_session_id = ''a1b2c3d4-e5f6-4789-8abc-def012345678'',
                   chat_messages = []\<rparr>)
        (Clock 2) ''9a8b7c6d-5e4f-4a3b-9c2d-1e0f9a8b7c6d'' Rejected,
      SetCurrentConversation ''0f8b1c2d-3e4f-4a5b-8c6d-7e8f9a0b1c2d'' Rejected,
      SendMessage ''And Q2?'' (Clock 3) ''9a8b7c6d-5e4f-4a3b-9c2d-1e0f9a8b7c6d''
        (Resolved \<lparr>generation = ''Q2 grew'',
                   chat_session_id = ''b2c3d4e5-f6a7-4890-9bcd-ef0123456789'',
                   chat_messages = []\<rparr>)
        (Clock 4) ''9a8b7c6d-5e4f-4a3b-9c2d-1e0f9a8b7c6d'' Rejected]"
  have init: "uniqueIds (initialStore ''key'' ''host'')"
    by (simp add: uniqueIds_def initialStore_def)
  have adm: "admissibleRun ?ops (initialStore ''key'' ''host'')"
    by code_simp
  have ids: "map conv_id (conversations (run ?ops (initialStore ''key'' ''host''))) =
      [''b2c3d4e5-f6a7-4890-9bcd-ef0123456789'']"
    by code_simp
  have "uniqueIds (run (take 3 ?ops) (initialStore ''key'' ''host''))"
    using uniqueIds_invariant [OF init adm] by (rule spec)
  then have "uniqueIds (run ?ops (initialStore ''key'' ''host''))" by simp
  with init adm ids show ?thesis by blast
qed

text \<open>
  C9, counterexample. Two sessions are loaded from the initial store, the second one is
  current; the response to a message carries the session id of the first. The current
  conversation is renamed to it and two conversations have the same id.
\<close>

theorem uniqueIds_backend_counterexample:
  "map conv_id (conversations (run
     [LoadConversation ''a1b2c3d4-e5f6-4789-8abc-def012345678''
        (Resolved \<lparr>cr_session_id = ''a1b2c3d4-e5f6-4789-8abc-def012345678'', cr_user_id = ''u'',
                   cr_messages = Some [],
                   cr_metadata = \<lparr>meta_created_at = ''2024-01-01'', meta_last_updated = ''2024-01-01'',
                                  meta_message_count = 0, meta_title = ''Q1''\<rparr>\<rparr>),
      LoadConversation ''b2c3d4e5-f6a7-4890-9bcd-ef0123456789''
        (Resolved \<lparr>cr_session_id = ''b2c3d4e5-f6a7-4890-9bcd-ef0123456789'', cr_user_id = ''u'',
                   cr_messages = Some [],
                   cr_metadata = \<lparr>meta_created_at = ''2024-02-01'', meta_last_updated = ''2024-02-01'',
                                  meta_message_count = 0, meta_title = ''Q2''\<rparr>\<rparr>),
      SendMessage ''And Q3?'' (Clock 3) ''0f8b1c2d-3e4f-4a5b-8c6d-7e8f9a0b1c2d''
        (Resolved \<lparr>generation = ''Q3 fell'',
                   chat_session_id = ''a1b2c3d4-e5f6-4789-8abc-def012345678'',
                   chat_messages = []\<rparr>)
        (Clock 4) ''9a8b7c6d-5e4f-4a3b-9c2d-1e0f9a8b7c6d'' Rejected]
     (initialStore ''key'' ''host''))) =
     [''a1b2c3d4-e5f6-4789-8abc-def012345678'', ''a1b2c3d4-e5f6-4789-8abc-def012345678''] \<and>
   \<not> uniqueIds (run
     [LoadConversation ''a1b2c3d4-e5f6-4789-8abc-def012345678''
        (Resolved \<lparr>cr_session_id = ''a1b2c3d4-e5f6-4789-8abc-def012345678'', cr_user_id = ''u'',
                   cr_messages = Some [],
                   cr_metadata = \<lparr>meta_created_at = ''2024-01-01'', meta_last_updated = ''2024-01-01'',
                                  meta_message_count = 0, meta_title = ''Q1''\<rparr>\<rparr>),
      LoadConversation ''b2c3d4e5-f6a7-4890-9bcd-ef0123456789''
        (Resolved \<lparr>cr_session_id = ''b2c3d4e5-f6a7-4890-9bcd-ef0123456789'', cr_user_id = ''u'',
                   cr_messages = Some [],
                   cr_metadata = \<lparr>meta_created_at = ''2024-02-01'', meta_last_updated = ''2024-02-01'',
                                  meta_message_count = 0, meta_title = ''Q2''\<rparr>\<rparr>),
      SendMessage ''And Q3?'' (Clock 3) ''0f8b1c2d-3e4f-4a5b-8c6d-7e8f9a0b1c2d''
        (Resolved \<lparr>generation = ''Q3 fell'',
                   chat_session_id = ''a1b2c3d4-e5f6-4789-8abc-def012345678'',
                   chat_messages = []\<rparr>)
        (Clock 4) ''9a8b7c6d-5e4f-4a3b-9c2d-1e0f9a8b7c6d'' Rejected]
     (initialStore ''key'' ''host''))"
  by code_simp

end
